theory Spec2Isabelle
  imports Complex_Main "HOL-Library.AList"
begin

section \<open>Values of the Python library\<close>

text \<open>
  A naive \<open>datetime\<close> is a point on a timeline with microsecond resolution that starts at
  0001-01-01T00:00:00, so it is a natural number of microseconds. \<open>str(uuid.uuid4())\<close> is
  always a string of 36 characters; the type \<open>uuid_str\<close> holds exactly those strings.
\<close>

type_synonym datetime = nat

typedef uuid_str = "{s :: string. length s = 36}"
  by (rule exI [of _ "replicate 36 (CHR ''0'')"]) simp

text \<open>A value in the metadata of a ChromaDB record: a string or an integer.\<close>

datatype cval = CStr string | CInt int

text \<open>
  \<open>datetime.isoformat\<close>, \<open>datetime.fromisoformat\<close>, \<open>hashlib.md5(text.encode()).hexdigest()\<close>
  and the \<open>add\<close> of a ChromaDB collection are library functions, not code of the
  repository: the model takes them as the parameter \<open>K\<close>. \<open>fromisoformat\<close> returns \<open>None\<close>
  where Python raises \<open>ValueError\<close>; \<open>md5_hexdigest\<close> returns \<open>None\<close> where \<open>encode\<close>
  raises \<open>UnicodeEncodeError\<close>, as it does on a text that holds a surrogate code point;
  \<open>add_raises\<close> tells whether \<open>add\<close> raises for an id, a document and its metadata
  (a value it does not accept, an embedding that cannot be computed). The one property
  of them that reading back relies on is that \<open>fromisoformat\<close> reads what \<open>isoformat\<close>
  wrote (\<open>pylib_ok\<close>).
\<close>

record pylib =
  isoformat :: "datetime \<Rightarrow> string"
  fromisoformat :: "string \<Rightarrow> datetime option"
  md5_hexdigest :: "string \<Rightarrow> string option"
  add_raises :: "string \<Rightarrow> string \<Rightarrow> (string \<rightharpoonup> cval) \<Rightarrow> bool"

definition pylib_ok :: "pylib \<Rightarrow> bool" where
  "pylib_ok K = (\<forall>d. fromisoformat K (isoformat K d) = Some d)"

text \<open>\<open>str(n)\<close> for an integer: decimal digits, with a minus sign when negative.\<close>

fun str_nat :: "nat \<Rightarrow> string" where
  "str_nat n =
     (if n < 10 then [''0123456789'' ! n]
      else str_nat (n div 10) @ [''0123456789'' ! (n mod 10)])"

declare str_nat.simps [simp del]

definition str_int :: "int \<Rightarrow> string" where
  "str_int i = (if i < 0 then CHR ''-'' # str_nat (nat (- i)) else str_nat (nat i))"

section \<open>models/content\_models.py\<close>

datatype ContentStatus =
  SCRAPED | AI_WRITTEN | AI_REVIEWED | HUMAN_REVIEW | HUMAN_EDITED | FINALIZED | PUBLISHED

fun ContentStatus_value :: "ContentStatus \<Rightarrow> string" where
  "ContentStatus_value SCRAPED = ''scraped''"
| "ContentStatus_value AI_WRITTEN = ''ai_written''"
| "ContentStatus_value AI_REVIEWED = ''ai_reviewed''"
| "ContentStatus_value HUMAN_REVIEW = ''human_review''"
| "ContentStatus_value HUMAN_EDITED = ''human_edited''"
| "ContentStatus_value FINALIZED = ''finalized''"
| "ContentStatus_value PUBLISHED = ''published''"

text \<open>\<open>ContentStatus(s)\<close>: the member with value \<open>s\<close>, \<open>None\<close> where Python raises \<open>ValueError\<close>.\<close>

definition ContentStatus_of :: "string \<Rightarrow> ContentStatus option" where
  "ContentStatus_of s =
     (if s = ''scraped'' then Some SCRAPED
      else if s = ''ai_written'' then Some AI_WRITTEN
      else if s = ''ai_reviewed'' then Some AI_REVIEWED
      else if s = ''human_review'' then Some HUMAN_REVIEW
      else if s = ''human_edited'' then Some HUMAN_EDITED
      else if s = ''finalized'' then Some FINALIZED
      else if s = ''published'' then Some PUBLISHED
      else None)"

datatype AgentType =
  SCRAPER | AI_WRITER | AI_REVIEWER | HUMAN_WRITER | HUMAN_REVIEWER | HUMAN_EDITOR | SYSTEM

fun AgentType_value :: "AgentType \<Rightarrow> string" where
  "AgentType_value SCRAPER = ''scraper''"
| "AgentType_value AI_WRITER = ''ai_writer''"
| "AgentType_value AI_REVIEWER = ''ai_reviewer''"
| "AgentType_value HUMAN_WRITER = ''human_writer''"
| "AgentType_value HUMAN_REVIEWER = ''human_reviewer''"
| "AgentType_value HUMAN_EDITOR = ''human_editor''"
| "AgentType_value SYSTEM = ''system''"

definition AgentType_of :: "string \<Rightarrow> AgentType option" where
  "AgentType_of s =
     (if s = ''scraper'' then Some SCRAPER
      else if s = ''ai_writer'' then Some AI_WRITER
      else if s = ''ai_reviewer'' then Some AI_REVIEWER
      else if s = ''human_writer'' then Some HUMAN_WRITER
      else if s = ''human_reviewer'' then Some HUMAN_REVIEWER
      else if s = ''human_editor'' then Some HUMAN_EDITOR
      else if s = ''system'' then Some SYSTEM
      else None)"

text \<open>
  The values a metadata dictionary holds. The model covers \<open>None\<close>, booleans, integers,
  strings and datetimes; floats, nested lists and nested dictionaries are left out (their
  \<open>str()\<close> is the Python \<open>repr\<close>, which is not modelled).
\<close>

datatype pyval = PNone | PBool bool | PInt int | PStr string | PDatetime datetime

text \<open>
  A dictionary with string keys is a map. Field names carry the prefix of their class
  (\<open>cv_\<close> for \<open>ContentVersion\<close>), since \<open>id\<close>, \<open>chapter_id\<close> and \<open>status\<close> occur in several
  classes.
\<close>

record ContentVersion =
  cv_id :: string
  cv_chapter_id :: string
  cv_content :: string
  cv_status :: ContentStatus
  cv_agent_type :: AgentType
  cv_metadata :: "string \<rightharpoonup> pyval"
  cv_created_at :: datetime
  cv_parent_version_id :: "string option"

text \<open>\<open>_make_serializable\<close> on one metadata value (the branches for the values modelled).\<close>

fun make_serializable :: "pylib \<Rightarrow> pyval \<Rightarrow> pyval" where
  "make_serializable K (PDatetime d) = PStr (isoformat K d)"
| "make_serializable K v = v"

text \<open>
  The dataclass constructor followed by \<open>__post_init__\<close>. \<open>u\<close> is what
  \<open>str(uuid.uuid4())\<close> returns if it is called; the id argument is \<open>None\<close> or a string,
  so the conversion of an id that is not a string has nothing to do. The metadata hold
  scalar values, on which \<open>_make_serializable\<close> works value by value.
\<close>

definition ContentVersion_init ::
  "pylib \<Rightarrow> uuid_str \<Rightarrow> string option \<Rightarrow> string \<Rightarrow> string \<Rightarrow> ContentStatus \<Rightarrow> AgentType \<Rightarrow>
   (string \<rightharpoonup> pyval) \<Rightarrow> datetime \<Rightarrow> string option \<Rightarrow> ContentVersion" where
  "ContentVersion_init K u ido chap cont st ag md created parent =
     \<lparr> cv_id = (case ido of None \<Rightarrow> Rep_uuid_str u
                | Some s \<Rightarrow> if s = [] then Rep_uuid_str u else s),
       cv_chapter_id = chap,
       cv_content = cont,
       cv_status = st,
       cv_agent_type = ag,
       cv_metadata = map_option (make_serializable K) \<circ> md,
       cv_created_at = created,
       cv_parent_version_id = parent \<rparr>"

text \<open>\<open>get_content_hash\<close>: \<open>None\<close> where \<open>self.content.encode()\<close> raises.\<close>

definition get_content_hash :: "pylib \<Rightarrow> ContentVersion \<Rightarrow> string option" where
  "get_content_hash K v = md5_hexdigest K (cv_content v)"

section \<open>storage/version\_manager.py\<close>

subsection \<open>The ChromaDB collection\<close>

text \<open>
  ChromaDB is a library. Its collection is modelled as the list of its records in insertion
  order, each an id, a document and a flat metadata dictionary whose values are strings
  or integers. An \<open>add\<close> that does not raise leaves the collection as it is when the id
  is already there and appends the record otherwise; \<open>delete\<close> of an id that is not
  there does nothing and raises nothing, \<open>get\<close> by id finds the record or returns empty
  lists.
\<close>

type_synonym chroma_record = "string \<times> (string \<rightharpoonup> cval)"

type_synonym collection = "(string \<times> chroma_record) list"

definition collection_add :: "string \<Rightarrow> string \<Rightarrow> (string \<rightharpoonup> cval) \<Rightarrow> collection \<Rightarrow> collection" where
  "collection_add i doc md col = (if i \<in> fst ` set col then col else col @ [(i, (doc, md))])"

definition collection_get :: "collection \<Rightarrow> string \<Rightarrow> chroma_record option" where
  "collection_get col i = map_of col i"

definition collection_get_where :: "collection \<Rightarrow> string \<Rightarrow> cval \<Rightarrow> chroma_record list" where
  "collection_get_where col k x = map snd (filter (\<lambda>r. snd (snd r) k = Some x) col)"

definition collection_delete :: "string \<Rightarrow> collection \<Rightarrow> collection" where
  "collection_delete i col = filter (\<lambda>r. fst r \<noteq> i) col"

subsection \<open>save\_version\<close>

text \<open>The string stored for a metadata value (lines 60 to 64): \<open>isoformat\<close> for a datetime, \<open>str\<close> otherwise.\<close>

fun meta_str :: "pylib \<Rightarrow> pyval \<Rightarrow> string" where
  "meta_str K (PDatetime d) = isoformat K d"
| "meta_str K PNone = ''None''"
| "meta_str K (PBool b) = (if b then ''True'' else ''False'')"
| "meta_str K (PInt i) = str_int i"
| "meta_str K (PStr s) = s"

text \<open>
  The metadata dictionary prepared for ChromaDB (lines 48 to 64): the eight fixed keys, then
  one key \<open>meta_k\<close> for every key \<open>k\<close> of the version's metadata, written later and so
  winning over a fixed key of the same name. \<open>h\<close> is the content hash, once
  \<open>get_content_hash\<close> has returned it.
\<close>

definition chroma_metadata :: "pylib \<Rightarrow> string \<Rightarrow> ContentVersion \<Rightarrow> (string \<rightharpoonup> cval)" where
  "chroma_metadata K h v =
     [ ''version_id'' \<mapsto> CStr (cv_id v),
       ''chapter_id'' \<mapsto> CStr (cv_chapter_id v),
       ''status'' \<mapsto> CStr (ContentStatus_value (cv_status v)),
       ''agent_type'' \<mapsto> CStr (AgentType_value (cv_agent_type v)),
       ''created_at'' \<mapsto> CStr (isoformat K (cv_created_at v)),
       ''parent_version_id'' \<mapsto> CStr (case cv_parent_version_id v of None \<Rightarrow> [] | Some p \<Rightarrow> p),
       ''content_length'' \<mapsto> CInt (int (length (cv_content v))),
       ''content_hash'' \<mapsto> CStr h ]
     ++ (\<lambda>k. if take 5 k = ''meta_''
              then map_option (\<lambda>x. CStr (meta_str K x)) (cv_metadata v (drop 5 k))
              else None)"

text \<open>
  The four ways out of \<open>save_version\<close>: the two validation branches, the \<open>except\<close>
  clause, and the end of the \<open>try\<close> block. Only the last returns \<open>True\<close>. Inside the
  \<open>try\<close> block two calls can raise: \<open>get_content_hash\<close>, while the metadata are put
  together, and \<open>collection.add\<close>; in both cases nothing has been written.
\<close>

datatype save_exit = Missing_fields | Empty_content | Exception_caught | Saved

definition save_version_run :: "pylib \<Rightarrow> ContentVersion \<Rightarrow> collection \<Rightarrow> save_exit \<times> collection" where
  "save_version_run K v col =
     (if cv_id v = [] \<or> cv_chapter_id v = [] then (Missing_fields, col)
      else if cv_content v = [] then (Empty_content, col)
      else
        case get_content_hash K v of
          None \<Rightarrow> (Exception_caught, col)
        | Some h \<Rightarrow>
            if add_raises K (cv_id v) (cv_content v) (chroma_metadata K h v)
            then (Exception_caught, col)
            else (Saved, collection_add (cv_id v) (cv_content v) (chroma_metadata K h v) col))"

definition save_version :: "pylib \<Rightarrow> ContentVersion \<Rightarrow> collection \<Rightarrow> bool \<times> collection" where
  "save_version K v col =
     (fst (save_version_run K v col) = Saved, snd (save_version_run K v col))"

subsection \<open>get\_version\<close>

text \<open>
  Reading a key of the stored metadata: \<open>None\<close> stands for the \<open>KeyError\<close> of a missing
  key. A value of the fixed keys that is not a string is outside what \<open>save_version\<close>
  writes; the model fails on it as on a missing key.
\<close>

definition md_str :: "(string \<rightharpoonup> cval) \<Rightarrow> string \<Rightarrow> string option" where
  "md_str md k = (case md k of Some (CStr s) \<Rightarrow> Some s | _ \<Rightarrow> None)"

fun cval_to_pyval :: "cval \<Rightarrow> pyval" where
  "cval_to_pyval (CStr s) = PStr s"
| "cval_to_pyval (CInt i) = PInt i"

text \<open>The loop over the stored keys that start with \<open>meta_\<close>: key \<open>meta_k\<close> becomes \<open>k\<close>.\<close>

definition version_metadata :: "(string \<rightharpoonup> cval) \<Rightarrow> (string \<rightharpoonup> pyval)" where
  "version_metadata md = (\<lambda>k. map_option cval_to_pyval (md (''meta_'' @ k)))"

text \<open>
  Rebuilding a \<open>ContentVersion\<close> from a document and its metadata, as \<open>get_version\<close>,
  \<open>get_chapter_versions\<close> and \<open>search_similar_content\<close> all do. \<open>None\<close> is an exception
  (a missing key, an unknown enum value, a timestamp that does not parse).
\<close>

definition version_of_record :: "pylib \<Rightarrow> uuid_str \<Rightarrow> string \<Rightarrow> (string \<rightharpoonup> cval) \<Rightarrow> ContentVersion option" where
  "version_of_record K u doc md =
     Option.bind (md_str md ''version_id'') (\<lambda>i.
     Option.bind (md_str md ''chapter_id'') (\<lambda>c.
     Option.bind (Option.bind (md_str md ''status'') ContentStatus_of) (\<lambda>st.
     Option.bind (Option.bind (md_str md ''agent_type'') AgentType_of) (\<lambda>ag.
     Option.bind (Option.bind (md_str md ''created_at'') (fromisoformat K)) (\<lambda>d.
     Option.bind (md_str md ''parent_version_id'') (\<lambda>p.
       Some (ContentVersion_init K u (Some i) c doc st ag (version_metadata md) d
               (if p = [] then None else Some p))))))))"

definition get_version :: "pylib \<Rightarrow> uuid_str \<Rightarrow> string \<Rightarrow> collection \<Rightarrow> ContentVersion option" where
  "get_version K u version_id col =
     (case collection_get col version_id of
        None \<Rightarrow> None
      | Some (doc, md) \<Rightarrow> if doc = [] then None else version_of_record K u doc md)"

text \<open>
  What \<open>get_version\<close> gives back for a version that \<open>save_version\<close> wrote: the same
  version, except that every metadata value is the string that was stored for it and that
  an empty parent id has become \<open>None\<close>.
\<close>

definition stored_form :: "pylib \<Rightarrow> ContentVersion \<Rightarrow> ContentVersion" where
  "stored_form K v =
     v\<lparr> cv_metadata := (\<lambda>k. map_option (\<lambda>x. PStr (meta_str K x)) (cv_metadata v k)),
        cv_parent_version_id :=
          (case cv_parent_version_id v of None \<Rightarrow> None | Some p \<Rightarrow> if p = [] then None else Some p) \<rparr>"

subsection \<open>delete\_version\<close>

definition delete_version :: "string \<Rightarrow> collection \<Rightarrow> bool \<times> collection" where
  "delete_version version_id col = (True, collection_delete version_id col)"

subsection \<open>get\_chapter\_versions\<close>

text \<open>
  Every record whose \<open>chapter_id\<close> is the one asked for is rebuilt, \<open>us i\<close> being the
  UUID at hand for the \<open>i\<close>-th record; one record that cannot be rebuilt raises, and the
  \<open>except\<close> clause then returns the empty list. Python's \<open>sort\<close> is stable, as
  \<open>sort_key\<close> is.
\<close>

definition get_chapter_versions ::
  "pylib \<Rightarrow> (nat \<Rightarrow> uuid_str) \<Rightarrow> string \<Rightarrow> collection \<Rightarrow> ContentVersion list" where
  "get_chapter_versions K us chapter_id col =
     (let result = collection_get_where col ''chapter_id'' (CStr chapter_id) in
      case those (map (\<lambda>(i, (doc, md)). version_of_record K (us i) doc md) (enumerate 0 result)) of
        None \<Rightarrow> []
      | Some versions \<Rightarrow> sort_key cv_created_at versions)"

subsection \<open>search\_similar\_content\<close>

text \<open>
  The vector search is ChromaDB's: the model starts from what \<open>collection.query\<close>
  returned for the one query text, the documents, their metadata and their distances
  (\<open>None\<close> when the result carries no distances). Distances and similarities are
  floats in the source and real numbers here.
\<close>

record query_result =
  qr_documents :: "string list"
  qr_metadatas :: "(string \<rightharpoonup> cval) list"
  qr_distances :: "real list option"

definition SIMILARITY_THRESHOLD :: real where
  "SIMILARITY_THRESHOLD = 0.8"

definition nth_opt :: "'a list \<Rightarrow> nat \<Rightarrow> 'a option" where
  "nth_opt xs i = (if i < length xs then Some (xs ! i) else None)"

text \<open>
  One turn of the loop over the documents: \<open>None\<close> is an exception (an index out of range,
  a record that cannot be rebuilt), \<open>Some None\<close> the \<open>continue\<close> of a skipped result,
  \<open>Some (Some p)\<close> the pair appended.
\<close>

definition search_row ::
  "pylib \<Rightarrow> uuid_str \<Rightarrow> query_result \<Rightarrow> nat \<Rightarrow> (ContentVersion \<times> real) option option" where
  "search_row K u res i =
     Option.bind (nth_opt (qr_documents res) i) (\<lambda>doc.
     Option.bind (nth_opt (qr_metadatas res) i) (\<lambda>md.
     Option.bind (case qr_distances res of None \<Rightarrow> Some 1 | Some ds \<Rightarrow> nth_opt ds i) (\<lambda>distance.
       let similarity = 1 - distance in
       if similarity < 1 - SIMILARITY_THRESHOLD then Some None
       else map_option (\<lambda>v. Some (v, similarity)) (version_of_record K u doc md))))"

definition search_similar_content ::
  "pylib \<Rightarrow> (nat \<Rightarrow> uuid_str) \<Rightarrow> query_result \<Rightarrow> (ContentVersion \<times> real) list" where
  "search_similar_content K us res =
     (case those (map (\<lambda>i. search_row K (us i) res i) [0..<length (qr_documents res)]) of
        None \<Rightarrow> []
      | Some rows \<Rightarrow> List.map_filter (\<lambda>r. r) rows)"

subsection \<open>get\_version\_tree\<close>

text \<open>
  A node of the tree is a dictionary with an \<open>id\<close>, a list of \<open>children\<close> and, unless it
  is a stub made for a parent id, the four fields describing a version. The tree itself
  is a dictionary from ids to nodes; it is kept in insertion order, as Python keeps it.
\<close>

record version_info =
  vi_status :: string
  vi_agent_type :: string
  vi_created_at :: string
  vi_content_length :: nat

datatype tree_node = Node (node_id: string) (node_info: "version_info option") (node_children: "tree_node list")

type_synonym version_tree = "(string \<times> tree_node) list"

definition info_of_version :: "pylib \<Rightarrow> ContentVersion \<Rightarrow> tree_node" where
  "info_of_version K v =
     Node (cv_id v)
       (Some \<lparr> vi_status = ContentStatus_value (cv_status v),
               vi_agent_type = AgentType_value (cv_agent_type v),
               vi_created_at = isoformat K (cv_created_at v),
               vi_content_length = length (cv_content v) \<rparr>)
       []"

fun append_child :: "tree_node \<Rightarrow> tree_node \<Rightarrow> tree_node" where
  "append_child child (Node i info cs) = Node i info (cs @ [child])"

text \<open>One turn of the loop over the versions (lines 255 to 274).\<close>

definition tree_step :: "pylib \<Rightarrow> ContentVersion \<Rightarrow> version_tree \<Rightarrow> version_tree" where
  "tree_step K v tree =
     (let version_info = info_of_version K v in
      case cv_parent_version_id v of
        None \<Rightarrow> AList.update (cv_id v) version_info tree
      | Some p \<Rightarrow>
          if p = [] then AList.update (cv_id v) version_info tree
          else
            let tree1 = (if p \<in> fst ` set tree then tree else tree @ [(p, Node p None [])])
            in map (\<lambda>(k, n). if k = p then (k, append_child version_info n) else (k, n)) tree1)"

definition get_version_tree ::
  "pylib \<Rightarrow> (nat \<Rightarrow> uuid_str) \<Rightarrow> string \<Rightarrow> collection \<Rightarrow> version_tree" where
  "get_version_tree K us chapter_id col =
     fold (tree_step K) (get_chapter_versions K us chapter_id col) []"

text \<open>
  How often an id occurs in the forest: the ids of all nodes, the top-level ones and the
  ones nested under them.
\<close>

fun node_ids :: "tree_node \<Rightarrow> string list" where
  "node_ids (Node i info cs) = i # concat (map node_ids cs)"

definition forest_ids :: "version_tree \<Rightarrow> string list" where
  "forest_ids tree = concat (map (\<lambda>(k, n). node_ids n) tree)"

definition occurrences :: "version_tree \<Rightarrow> string \<Rightarrow> nat" where
  "occurrences tree i = count_list (forest_ids tree) i"

subsection \<open>update\_version\_status\<close>

definition update_version_status ::
  "pylib \<Rightarrow> uuid_str \<Rightarrow> string \<Rightarrow> ContentStatus \<Rightarrow> collection \<Rightarrow> bool \<times> collection" where
  "update_version_status K u version_id new_status col =
     (case get_version K u version_id col of
        None \<Rightarrow> (False, col)
      | Some version \<Rightarrow>
          save_version K (version\<lparr>cv_status := new_status\<rparr>) (collection_delete version_id col))"

text \<open>
  The states the collection goes through during one call: the state at entry, then the
  state after each call that writes to the collection (\<open>collection.delete\<close>, and the
  \<open>collection.add\<close> of \<open>save_version\<close>).
\<close>

definition update_version_status_states ::
  "pylib \<Rightarrow> uuid_str \<Rightarrow> string \<Rightarrow> ContentStatus \<Rightarrow> collection \<Rightarrow> collection list" where
  "update_version_status_states K u version_id new_status col =
     (case get_version K u version_id col of
        None \<Rightarrow> [col]
      | Some version \<Rightarrow>
          [col,
           collection_delete version_id col,
           snd (save_version K (version\<lparr>cv_status := new_status\<rparr>) (collection_delete version_id col))])"

definition present :: "collection \<Rightarrow> string \<Rightarrow> bool" where
  "present col i = (collection_get col i \<noteq> None)"

section \<open>agents/human\_interface.py\<close>

record ReviewRequest =
  rr_id :: string
  rr_chapter_id :: string
  rr_version :: ContentVersion
  rr_review_type :: string
  rr_submitted_at :: datetime
  rr_status :: string
  rr_reviewer_notes :: string

text \<open>
  The two dictionaries of the interface. A request object that a method changes in place
  is changed where the dictionary holds it.
\<close>

record HumanReviewInterface =
  pending_reviews :: "string \<rightharpoonup> ReviewRequest"
  completed_reviews :: "string \<rightharpoonup> ReviewRequest"

definition HumanReviewInterface_init :: HumanReviewInterface where
  "HumanReviewInterface_init = \<lparr> pending_reviews = Map.empty, completed_reviews = Map.empty \<rparr>"

text \<open>\<open>u\<close> is the UUID drawn for the review id, \<open>now\<close> the reading of the clock.\<close>

definition submit_for_human_review ::
  "uuid_str \<Rightarrow> datetime \<Rightarrow> string \<Rightarrow> ContentVersion \<Rightarrow> string \<Rightarrow> HumanReviewInterface \<Rightarrow>
   string \<times> HumanReviewInterface" where
  "submit_for_human_review u now chapter_id version review_type hri =
     (let review_id = Rep_uuid_str u;
          review_request = \<lparr> rr_id = review_id, rr_chapter_id = chapter_id, rr_version = version,
                             rr_review_type = review_type, rr_submitted_at = now,
                             rr_status = ''pending'', rr_reviewer_notes = [] \<rparr>
      in (review_id, hri\<lparr>pending_reviews := (pending_reviews hri)(review_id \<mapsto> review_request)\<rparr>))"

text \<open>A filter that is \<open>None\<close> or the empty string is falsy and filters nothing.\<close>

definition truthy :: "string option \<Rightarrow> bool" where
  "truthy x = (case x of None \<Rightarrow> False | Some s \<Rightarrow> s \<noteq> [])"

definition get_pending_reviews ::
  "string option \<Rightarrow> string option \<Rightarrow> HumanReviewInterface \<Rightarrow> (string \<rightharpoonup> ReviewRequest)" where
  "get_pending_reviews chapter_id review_type hri =
     (\<lambda>review_id.
        case pending_reviews hri review_id of
          None \<Rightarrow> None
        | Some review \<Rightarrow>
            if rr_status review \<noteq> ''pending'' then None
            else if truthy chapter_id \<and> Some (rr_chapter_id review) \<noteq> chapter_id then None
            else if truthy review_type \<and> Some (rr_review_type review) \<noteq> review_type then None
            else Some review)"

record review_version_info =
  rvi_version_id :: string
  rvi_status :: string
  rvi_agent_type :: string
  rvi_created_at :: string
  rvi_content_length :: nat
  rvi_content_preview :: string

record review_details =
  rd_review_id :: string
  rd_chapter_id :: string
  rd_review_type :: string
  rd_status :: string
  rd_submitted_at :: string
  rd_version_info :: review_version_info
  rd_reviewer_notes :: string

definition get_review_details ::
  "pylib \<Rightarrow> string \<Rightarrow> HumanReviewInterface \<Rightarrow> review_details option" where
  "get_review_details K review_id hri =
     (case (case pending_reviews hri review_id of
              Some r \<Rightarrow> Some r
            | None \<Rightarrow> completed_reviews hri review_id) of
        None \<Rightarrow> None
      | Some review \<Rightarrow>
          Some \<lparr> rd_review_id = review_id,
                 rd_chapter_id = rr_chapter_id review,
                 rd_review_type = rr_review_type review,
                 rd_status = rr_status review,
                 rd_submitted_at = isoformat K (rr_submitted_at review),
                 rd_version_info =
                   \<lparr> rvi_version_id = cv_id (rr_version review),
                     rvi_status = ContentStatus_value (cv_status (rr_version review)),
                     rvi_agent_type = AgentType_value (cv_agent_type (rr_version review)),
                     rvi_created_at = isoformat K (cv_created_at (rr_version review)),
                     rvi_content_length = length (cv_content (rr_version review)),
                     rvi_content_preview =
                       (if length (cv_content (rr_version review)) > 200
                        then take 200 (cv_content (rr_version review)) @ ''...''
                        else cv_content (rr_version review)) \<rparr>,
                 rd_reviewer_notes = rr_reviewer_notes review \<rparr>)"

text \<open>
  \<open>u\<close> is the UUID drawn for the new version's id and \<open>u'\<close> the one at hand for the
  constructor; \<open>now1\<close> and \<open>now2\<close> are the two readings of the clock, for
  \<open>review_completed_at\<close> and for \<open>created_at\<close>.
\<close>

definition complete_review ::
  "pylib \<Rightarrow> uuid_str \<Rightarrow> uuid_str \<Rightarrow> datetime \<Rightarrow> datetime \<Rightarrow> string \<Rightarrow> string \<Rightarrow> string \<Rightarrow> string \<Rightarrow>
   HumanReviewInterface \<Rightarrow> ContentVersion option \<times> HumanReviewInterface" where
  "complete_review K u u' now1 now2 review_id updated_content feedback reviewer_name hri =
     (case pending_reviews hri review_id of
        None \<Rightarrow> (None, hri)
      | Some review \<Rightarrow>
          let original_version = rr_version review;
              new_version =
                ContentVersion_init K u' (Some (Rep_uuid_str u)) (rr_chapter_id review) updated_content
                  HUMAN_EDITED HUMAN_EDITOR
                  [ ''feedback'' \<mapsto> PStr feedback,
                    ''review_id'' \<mapsto> PStr review_id,
                    ''reviewer_name'' \<mapsto> PStr reviewer_name,
                    ''review_type'' \<mapsto> PStr (rr_review_type review),
                    ''review_completed_at'' \<mapsto> PStr (isoformat K now1) ]
                  now2 (Some (cv_id original_version));
              review' = review\<lparr>rr_status := ''completed'', rr_reviewer_notes := feedback\<rparr>
          in (Some new_version,
              hri\<lparr> completed_reviews := (completed_reviews hri)(review_id \<mapsto> review'),
                   pending_reviews := (pending_reviews hri)(review_id := None) \<rparr>))"

definition reject_review ::
  "string \<Rightarrow> string \<Rightarrow> HumanReviewInterface \<Rightarrow> bool \<times> HumanReviewInterface" where
  "reject_review review_id reason hri =
     (case pending_reviews hri review_id of
        None \<Rightarrow> (False, hri)
      | Some review \<Rightarrow>
          (True,
           hri\<lparr>pending_reviews :=
                 (pending_reviews hri)
                   (review_id \<mapsto> review\<lparr>rr_status := ''rejected'', rr_reviewer_notes := reason\<rparr>)\<rparr>))"

text \<open>
  \<open>(now - submitted_at).total_seconds() / 3600\<close>: the difference of the two datetimes
  in microseconds, as seconds, as hours. The source computes it in floats; here it is a
  real number.
\<close>

definition hours_since_submission :: "datetime \<Rightarrow> datetime \<Rightarrow> real" where
  "hours_since_submission now submitted_at =
     (real_of_int (int now - int submitted_at) / 1000000) / 3600"

definition calculate_urgency :: "datetime \<Rightarrow> datetime \<Rightarrow> string" where
  "calculate_urgency now submitted_at =
     (if hours_since_submission now submitted_at > 72 then ''high''
      else if hours_since_submission now submitted_at > 24 then ''medium''
      else ''low'')"

text \<open>A duration of \<open>h\<close> hours, in microseconds.\<close>

definition hours :: "nat \<Rightarrow> nat" where
  "hours h = h * 3600 * 1000000"

section \<open>models/chapter\_models.py and workflow/publication\_workflow.py\<close>

datatype PublicationPhase =
  RESEARCH | DRAFTING | SPINNING | REVIEW | HUMAN_REVIEW_PHASE | FINALIZATION | PUBLICATION
| COMPLETED | FAILED

text \<open>The fields of a \<open>Chapter\<close> that the research phase reads or writes.\<close>

record Chapter =
  ch_id :: string
  ch_title :: string
  ch_current_version :: ContentVersion
  ch_versions :: "ContentVersion list"
  ch_keywords :: "string list"
  ch_research_sources :: "string list"
  ch_current_phase :: PublicationPhase
  ch_research_version_id :: "string option"

definition add_version :: "ContentVersion \<Rightarrow> Chapter \<Rightarrow> Chapter" where
  "add_version version ch = ch\<lparr>ch_versions := ch_versions ch @ [version], ch_current_version := version\<rparr>"

text \<open>
  What awaiting a coroutine gives: the exception it raised, or the value it returned.
  \<open>research_topic\<close> scrapes the web; its outcome for a chapter is an input of the model,
  as are the UUIDs and the reading of the clock.
\<close>

datatype 'a outcome = Raised | Returned 'a

record research_env =
  re_research_topic :: "(string \<times> (string \<rightharpoonup> pyval)) outcome"
  re_uuid :: uuid_str
  re_uuid' :: uuid_str
  re_now :: datetime

text \<open>
  \<open>_research_chapter\<close>: every exception raised inside is caught and turned into the
  return value \<open>False\<close>, so the coroutine itself always returns. (The handler formats
  the exception into a log line; an exception whose own \<open>__str__\<close> raises is left out.)
\<close>

definition research_chapter ::
  "pylib \<Rightarrow> research_env \<Rightarrow> Chapter \<Rightarrow> collection \<Rightarrow> bool outcome \<times> Chapter \<times> collection" where
  "research_chapter K env chapter col =
     (case re_research_topic env of
        Raised \<Rightarrow> (Returned False, chapter, col)
      | Returned (content, metadata) \<Rightarrow>
          if content = [] then (Returned False, chapter, col)
          else
            let research_version =
                  ContentVersion_init K (re_uuid' env) (Some (Rep_uuid_str (re_uuid env))) (ch_id chapter)
                    content SCRAPED SCRAPER metadata (re_now env) None;
                (saved, col') = save_version K research_version col
            in if \<not> saved then (Returned False, chapter, col')
               else (Returned True,
                     add_version research_version
                       (chapter\<lparr>ch_research_version_id := Some (cv_id research_version)\<rparr>),
                     col'))"

text \<open>
  \<open>_research_phase\<close>: one task per chapter, gathered with \<open>return_exceptions=True\<close>, then
  the loop over the results. Each task writes its own chapter and adds its own version to
  the collection, so the tasks are run here in the order of the list, the \<open>i\<close>-th with the
  inputs \<open>envs i\<close>.
\<close>

fun research_tasks ::
  "pylib \<Rightarrow> (nat \<Rightarrow> research_env) \<Rightarrow> nat \<Rightarrow> Chapter list \<Rightarrow> collection \<Rightarrow>
   (bool outcome \<times> Chapter) list \<times> collection" where
  "research_tasks K envs i [] col = ([], col)"
| "research_tasks K envs i (c # cs) col =
     (let (r, c', col') = research_chapter K (envs i) c col;
          (rs, col'') = research_tasks K envs (Suc i) cs col'
      in ((r, c') # rs, col''))"

definition research_phase ::
  "pylib \<Rightarrow> (nat \<Rightarrow> research_env) \<Rightarrow> Chapter list \<Rightarrow> collection \<Rightarrow> Chapter list \<times> collection" where
  "research_phase K envs chapters col =
     (let (results, col') = research_tasks K envs 0 chapters col
      in (map (\<lambda>(result, c).
                 case result of
                   Raised \<Rightarrow> c\<lparr>ch_current_phase := FAILED\<rparr>
                 | Returned b \<Rightarrow> c\<lparr>ch_current_phase := DRAFTING\<rparr>) results,
          col'))"

text \<open>The chapters the drafting phase works on: it skips every chapter whose phase is not \<open>DRAFTING\<close>.\<close>

definition drafting_phase_chapters :: "Chapter list \<Rightarrow> Chapter list" where
  "drafting_phase_chapters chapters = filter (\<lambda>c. ch_current_phase c = DRAFTING) chapters"

section \<open>Concrete library values for evaluating the model\<close>

text \<open>
  To run the model on a concrete input the library parameter needs a value. In
  \<open>sample_lib\<close> a timestamp is written as its decimal number of microseconds and read
  back from it, \<open>add\<close> never raises, and the digest of a text is a constant unless the
  text holds a surrogate code point, on which \<open>encode\<close> raises. No general result below
  depends on more than \<open>pylib_ok\<close>.

  A text is given by its bytes in UTF-8. A surrogate code point (U+D800 to U+DFFF), which
  a Python string can hold and UTF-8 cannot encode, is written with the three bytes that
  stand for it: \<open>0xED\<close>, a byte from \<open>0xA0\<close> to \<open>0xBF\<close>, and a continuation byte. No
  encodable text has \<open>0xED\<close> followed by such a byte.
\<close>

fun has_surrogate :: "string \<Rightarrow> bool" where
  "has_surrogate (a # b # cs) =
     ((a = CHR 0xED \<and> 160 \<le> (of_char b :: nat) \<and> (of_char b :: nat) \<le> 191)
      \<or> has_surrogate (b # cs))"
| "has_surrogate cs = False"

definition sample_digest :: string where
  "sample_digest = ''d41d8cd98f00b204e9800998ecf8427e''"

text \<open>The text of one code point, the surrogate U+D800.\<close>

definition surrogate_text :: string where
  "surrogate_text = [CHR 0xED, CHR 0xA0, CHR 0x80]"

definition digit_val :: "char \<Rightarrow> nat option" where
  "digit_val c = map_of (zip ''0123456789'' [0, 1, 2, 3, 4, 5, 6, 7, 8, 9]) c"

fun nat_of_digits :: "nat \<Rightarrow> string \<Rightarrow> nat option" where
  "nat_of_digits acc [] = Some acc"
| "nat_of_digits acc (c # cs) =
     (case digit_val c of None \<Rightarrow> None | Some d \<Rightarrow> nat_of_digits (10 * acc + d) cs)"

definition nat_of_str :: "string \<Rightarrow> nat option" where
  "nat_of_str s = (if s = [] then None else nat_of_digits 0 s)"

definition sample_lib :: pylib where
  "sample_lib =
     \<lparr> isoformat = str_nat, fromisoformat = nat_of_str,
       md5_hexdigest = (\<lambda>s. if has_surrogate s then None else Some sample_digest),
       add_raises = (\<lambda>i doc md. False) \<rparr>"

definition uuid_a :: uuid_str where
  "uuid_a = Abs_uuid_str ''00000000-0000-4000-8000-00000000000a''"

definition uuid_b :: uuid_str where
  "uuid_b = Abs_uuid_str ''00000000-0000-4000-8000-00000000000b''"

section \<open>Concrete inputs\<close>

text \<open>
  The versions of one chapter as the pipeline produces them: the research text, the draft
  made from it and the spun text made from the draft, saved in that order.
\<close>

definition v_research :: ContentVersion where
  "v_research = \<lparr> cv_id = ''v1'', cv_chapter_id = ''A'', cv_content = ''raw text'',
      cv_status = SCRAPED, cv_agent_type = SCRAPER, cv_metadata = Map.empty,
      cv_created_at = 1, cv_parent_version_id = None \<rparr>"

definition v_draft :: ContentVersion where
  "v_draft = \<lparr> cv_id = ''v2'', cv_chapter_id = ''A'', cv_content = ''draft text'',
      cv_status = AI_WRITTEN, cv_agent_type = AI_WRITER, cv_metadata = [''word_count'' \<mapsto> PInt 2],
      cv_created_at = 2, cv_parent_version_id = Some ''v1'' \<rparr>"

definition v_spun :: ContentVersion where
  "v_spun = \<lparr> cv_id = ''v3'', cv_chapter_id = ''A'', cv_content = ''spun text'',
      cv_status = AI_WRITTEN, cv_agent_type = AI_WRITER, cv_metadata = Map.empty,
      cv_created_at = 3, cv_parent_version_id = Some ''v2'' \<rparr>"

definition pipeline_store :: collection where
  "pipeline_store =
     snd (save_version sample_lib v_spun
       (snd (save_version sample_lib v_draft
         (snd (save_version sample_lib v_research [])))))"

text \<open>A chapter whose root version carries a later timestamp than the version derived from it.\<close>

definition v_root_late :: ContentVersion where
  "v_root_late = \<lparr> cv_id = ''r1'', cv_chapter_id = ''B'', cv_content = ''root text'',
      cv_status = SCRAPED, cv_agent_type = SCRAPER, cv_metadata = Map.empty,
      cv_created_at = 2, cv_parent_version_id = None \<rparr>"

definition v_child_early :: ContentVersion where
  "v_child_early = \<lparr> cv_id = ''c1'', cv_chapter_id = ''B'', cv_content = ''child text'',
      cv_status = AI_WRITTEN, cv_agent_type = AI_WRITER, cv_metadata = Map.empty,
      cv_created_at = 1, cv_parent_version_id = Some ''r1'' \<rparr>"

definition late_parent_store :: collection where
  "late_parent_store =
     snd (save_version sample_lib v_child_early (snd (save_version sample_lib v_root_late [])))"

text \<open>A query result with one document, the draft, at distance one half.\<close>

definition half_distance_result :: query_result where
  "half_distance_result =
     \<lparr> qr_documents = [cv_content v_draft],
       qr_metadatas = [chroma_metadata sample_lib sample_digest v_draft],
       qr_distances = Some [0.5] \<rparr>"

text \<open>A review interface with one request, for the spun text, submitted at time 10.\<close>

definition one_pending :: HumanReviewInterface where
  "one_pending =
     snd (submit_for_human_review uuid_a 10 ''A'' v_spun ''general'' HumanReviewInterface_init)"

text \<open>
  Two chapters in the research phase; \<open>research_topic\<close> returns a text for the first and
  raises for the second.
\<close>

definition chapter_A :: Chapter where
  "chapter_A =
     \<lparr> ch_id = ''A'', ch_title = ''First'', ch_current_version = v_research\<lparr>cv_content := []\<rparr>,
       ch_versions = [v_research\<lparr>cv_content := []\<rparr>], ch_keywords = [],
       ch_research_sources = [''http://a''], ch_current_phase = RESEARCH,
       ch_research_version_id = None \<rparr>"

definition chapter_B :: Chapter where
  "chapter_B = chapter_A\<lparr>ch_id := ''B'', ch_title := ''Second'', ch_research_sources := []\<rparr>"

definition research_envs :: "nat \<Rightarrow> research_env" where
  "research_envs i =
     \<lparr> re_research_topic = (if i = 0 then Returned (''found text'', Map.empty) else Raised),
       re_uuid = uuid_a, re_uuid' = uuid_b, re_now = 5 \<rparr>"

section \<open>Facts about the library values\<close>

lemma digit_val_digit: "d < 10 \<Longrightarrow> digit_val (''0123456789'' ! d) = Some d"
proof -
  assume "d < 10"
  then consider "d = 0" | "d = 1" | "d = 2" | "d = 3" | "d = 4" | "d = 5" | "d = 6" | "d = 7"
    | "d = 8" | "d = 9"
    by atomize_elim arith
  then show ?thesis by cases (simp_all add: digit_val_def)
qed

lemma nat_of_digits_append:
  "nat_of_digits acc (xs @ ys) = Option.bind (nat_of_digits acc xs) (\<lambda>a. nat_of_digits a ys)"
  by (induction xs arbitrary: acc) (auto split: option.splits)

lemma nat_of_digits_str_nat: "nat_of_digits 0 (str_nat n) = Some n"
proof (induction n rule: str_nat.induct)
  case (1 n)
  show ?case
  proof (cases "n < 10")
    case True
    then show ?thesis by (subst str_nat.simps) (simp add: digit_val_digit)
  next
    case False
    with 1 have "nat_of_digits 0 (str_nat (n div 10)) = Some (n div 10)" by simp
    with False show ?thesis
      by (subst str_nat.simps) (simp add: nat_of_digits_append digit_val_digit)
  qed
qed

lemma str_nat_nonempty: "str_nat n \<noteq> []"
  by (subst str_nat.simps) simp

lemma sample_lib_ok: "pylib_ok sample_lib"
  by (simp add: pylib_ok_def sample_lib_def nat_of_str_def str_nat_nonempty nat_of_digits_str_nat)

lemma Rep_uuid_a: "Rep_uuid_str uuid_a = ''00000000-0000-4000-8000-00000000000a''"
  by (simp add: uuid_a_def Abs_uuid_str_inverse)

lemma Rep_uuid_b: "Rep_uuid_str uuid_b = ''00000000-0000-4000-8000-00000000000b''"
  by (simp add: uuid_b_def Abs_uuid_str_inverse)

lemma Rep_uuid_str_nonempty: "Rep_uuid_str u \<noteq> []"
  using Rep_uuid_str [of u] by auto

lemma ContentStatus_of_value: "ContentStatus_of (ContentStatus_value s) = Some s"
  by (cases s) (simp_all add: ContentStatus_of_def)

lemma AgentType_of_value: "AgentType_of (AgentType_value a) = Some a"
  by (cases a) (simp_all add: AgentType_of_def)

section \<open>The constructor never leaves the id empty\<close>

text \<open>
  C10. Whatever is passed for the id (nothing, the empty string, or a string), the
  version that the constructor and \<open>__post_init__\<close> build has a non-empty id: a missing
  or empty one is replaced by the UUID string. So \<open>save_version\<close> leaves through its
  branch for missing fields exactly when the chapter id of such a version is empty, and
  through its branch for empty content exactly when the chapter id is there and the
  content is empty: validation turns the version down for these two reasons only, never
  for its id. Past validation, the call returns \<open>True\<close> unless hashing the content or
  the \<open>add\<close> raises; the last conjunct says exactly when it returns \<open>True\<close>.
\<close>

theorem constructed_version_id_nonempty:
  "cv_id (ContentVersion_init K u ido chap cont st ag md created parent) \<noteq> [] \<and>
   cv_id (ContentVersion_init K u None chap cont st ag md created parent) = Rep_uuid_str u \<and>
   cv_id (ContentVersion_init K u (Some []) chap cont st ag md created parent) = Rep_uuid_str u \<and>
   (fst (save_version_run K (ContentVersion_init K u ido chap cont st ag md created parent) col)
      = Missing_fields) = (chap = []) \<and>
   (fst (save_version_run K (ContentVersion_init K u ido chap cont st ag md created parent) col)
      = Empty_content) = (chap \<noteq> [] \<and> cont = []) \<and>
   fst (save_version K (ContentVersion_init K u ido chap cont st ag md created parent) col)
     = (chap \<noteq> [] \<and> cont \<noteq> [] \<and>
        (\<exists>h. md5_hexdigest K cont = Some h \<and>
             \<not> add_raises K (cv_id (ContentVersion_init K u ido chap cont st ag md created parent))
                  cont
                  (chroma_metadata K h
                     (ContentVersion_init K u ido chap cont st ag md created parent))))"
proof -
  let ?c = "ContentVersion_init K u ido chap cont st ag md created parent"
  have i: "cv_id ?c \<noteq> []"
    by (simp add: ContentVersion_init_def Rep_uuid_str_nonempty split: option.splits)
  have f: "cv_chapter_id ?c = chap" "cv_content ?c = cont"
    by (simp_all add: ContentVersion_init_def)
  have u: "cv_id (ContentVersion_init K u None chap cont st ag md created parent) = Rep_uuid_str u"
      "cv_id (ContentVersion_init K u (Some []) chap cont st ag md created parent) = Rep_uuid_str u"
    by (simp_all add: ContentVersion_init_def)
  have m: "(fst (save_version_run K ?c col) = Missing_fields) = (chap = [])"
    using i by (simp add: save_version_run_def f split: option.splits)
  have e: "(fst (save_version_run K ?c col) = Empty_content) = (chap \<noteq> [] \<and> cont = [])"
    using i by (auto simp: save_version_run_def f split: option.splits)
  have t: "fst (save_version K ?c col)
     = (chap \<noteq> [] \<and> cont \<noteq> [] \<and>
        (\<exists>h. md5_hexdigest K cont = Some h \<and> \<not> add_raises K (cv_id ?c) cont (chroma_metadata K h ?c)))"
    using i
    by (auto simp: save_version_def save_version_run_def get_content_hash_def f split: option.splits)
  from i u m e t show ?thesis by simp
qed

text \<open>
  The way through the \<open>except\<close> clause, on a concrete version: its chapter id and its
  content are there, the content is a surrogate, hashing it raises, and \<open>save_version\<close>
  returns \<open>False\<close> with nothing written.
\<close>

lemma save_version_exception_example:
  "save_version_run sample_lib
     (ContentVersion_init sample_lib uuid_a None ''A'' surrogate_text SCRAPED SCRAPER Map.empty 1 None) []
     = (Exception_caught, []) \<and>
   save_version sample_lib
     (ContentVersion_init sample_lib uuid_a None ''A'' surrogate_text SCRAPED SCRAPER Map.empty 1 None) []
     = (False, [])"
  by (simp add: save_version_def save_version_run_def ContentVersion_init_def Rep_uuid_a
        get_content_hash_def sample_lib_def surrogate_text_def)

section \<open>Saving and reading back\<close>

lemma chroma_metadata_fixed:
  "chroma_metadata K h v ''version_id'' = Some (CStr (cv_id v))"
  "chroma_metadata K h v ''chapter_id'' = Some (CStr (cv_chapter_id v))"
  "chroma_metadata K h v ''status'' = Some (CStr (ContentStatus_value (cv_status v)))"
  "chroma_metadata K h v ''agent_type'' = Some (CStr (AgentType_value (cv_agent_type v)))"
  "chroma_metadata K h v ''created_at'' = Some (CStr (isoformat K (cv_created_at v)))"
  "chroma_metadata K h v ''parent_version_id'' =
     Some (CStr (case cv_parent_version_id v of None \<Rightarrow> [] | Some p \<Rightarrow> p))"
  by (simp_all add: chroma_metadata_def map_add_def)

lemma chroma_metadata_meta:
  "chroma_metadata K h v (''meta_'' @ k) = map_option (\<lambda>x. CStr (meta_str K x)) (cv_metadata v k)"
  by (simp add: chroma_metadata_def map_add_def split: option.splits)

lemma version_of_record_chroma_metadata:
  assumes "pylib_ok K" and "cv_id v \<noteq> []"
  shows "version_of_record K u (cv_content v) (chroma_metadata K h v) = Some (stored_form K v)"
proof -
  have iso: "fromisoformat K (isoformat K (cv_created_at v)) = Some (cv_created_at v)"
    using assms(1) by (simp add: pylib_ok_def)
  have md: "map_option (make_serializable K) \<circ> version_metadata (chroma_metadata K h v)
            = (\<lambda>k. map_option (\<lambda>x. PStr (meta_str K x)) (cv_metadata v k))"
  proof (rule ext)
    fix k
    show "(map_option (make_serializable K) \<circ> version_metadata (chroma_metadata K h v)) k
          = map_option (\<lambda>x. PStr (meta_str K x)) (cv_metadata v k)"
      unfolding version_metadata_def comp_def chroma_metadata_meta
      by (simp add: option.map_comp comp_def)
  qed
  show ?thesis
    using assms(2)
    by (cases "cv_parent_version_id v")
       (simp_all add: version_of_record_def md_str_def chroma_metadata_fixed iso
          ContentStatus_of_value AgentType_of_value ContentVersion_init_def md stored_form_def)
qed

lemma collection_get_add_fresh:
  "\<not> present col i \<Longrightarrow> collection_get (collection_add i doc md col) i = Some (doc, md)"
proof -
  assume "\<not> present col i"
  then have h1: "map_of col i = None"
    unfolding present_def collection_get_def by blast
  then have h2: "i \<notin> fst ` set col"
    by (simp add: map_of_eq_None_iff)
  show ?thesis
    by (simp add: collection_get_def collection_add_def h1 h2 map_add_def)
qed

lemma save_version_ok:
  assumes "fst (save_version K v col)"
  shows "cv_id v \<noteq> [] \<and> cv_chapter_id v \<noteq> [] \<and> cv_content v \<noteq> [] \<and>
         (\<exists>h. get_content_hash K v = Some h \<and>
              \<not> add_raises K (cv_id v) (cv_content v) (chroma_metadata K h v) \<and>
              snd (save_version K v col)
                = collection_add (cv_id v) (cv_content v) (chroma_metadata K h v) col)"
  using assms
  by (auto simp: save_version_def save_version_run_def split: if_splits option.splits)

lemma save_version_accepts:
  assumes "cv_id v \<noteq> []" and "cv_chapter_id v \<noteq> []" and "cv_content v \<noteq> []"
      and "get_content_hash K v = Some h"
      and "\<not> add_raises K (cv_id v) (cv_content v) (chroma_metadata K h v)"
  shows "save_version K v col
           = (True, collection_add (cv_id v) (cv_content v) (chroma_metadata K h v) col)"
  using assms by (simp add: save_version_def save_version_run_def)

lemma save_version_sample:
  assumes "cv_id v \<noteq> []" and "cv_chapter_id v \<noteq> []" and "cv_content v \<noteq> []"
      and "\<not> has_surrogate (cv_content v)"
  shows "save_version sample_lib v col
           = (True, collection_add (cv_id v) (cv_content v)
                      (chroma_metadata sample_lib sample_digest v) col)"
proof -
  have "get_content_hash sample_lib v = Some sample_digest"
    using assms(4) by (simp add: get_content_hash_def sample_lib_def)
  moreover have "\<not> add_raises sample_lib (cv_id v) (cv_content v)
                     (chroma_metadata sample_lib sample_digest v)"
    by (simp add: sample_lib_def)
  ultimately show ?thesis
    using assms(1,2,3) by (rule save_version_accepts [rotated 3])
qed

lemma get_version_after_save:
  assumes "pylib_ok K" and "\<not> present col (cv_id v)" and "fst (save_version K v col)"
  shows "get_version K u (cv_id v) (snd (save_version K v col)) = Some (stored_form K v)"
proof -
  from save_version_ok [OF assms(3)] obtain h where
    ne: "cv_id v \<noteq> []" "cv_content v \<noteq> []" and
    col': "snd (save_version K v col)
             = collection_add (cv_id v) (cv_content v) (chroma_metadata K h v) col"
    by blast
  with assms(1,2) show ?thesis
    by (simp add: get_version_def collection_get_add_fresh version_of_record_chroma_metadata)
qed

lemma get_version_written:
  assumes "pylib_ok K"
      and "collection_get col (cv_id w) = Some (cv_content w, chroma_metadata K h w)"
      and "cv_id w \<noteq> []" and "cv_content w \<noteq> []"
  shows "get_version K u (cv_id w) col = Some (stored_form K w)"
  using assms by (simp add: get_version_def version_of_record_chroma_metadata)

lemma stored_form_fields:
  "cv_id (stored_form K v) = cv_id v"
  "cv_chapter_id (stored_form K v) = cv_chapter_id v"
  "cv_content (stored_form K v) = cv_content v"
  "cv_status (stored_form K v) = cv_status v"
  "cv_agent_type (stored_form K v) = cv_agent_type v"
  "cv_created_at (stored_form K v) = cv_created_at v"
  "get_content_hash K (stored_form K v) = get_content_hash K v"
  by (simp_all add: stored_form_def get_content_hash_def)

lemma stored_form_strings:
  assumes "\<forall>k x. cv_metadata v k = Some x \<longrightarrow> (\<exists>s. x = PStr s)"
      and "cv_parent_version_id v \<noteq> Some []"
  shows "stored_form K v = v"
proof -
  have "(\<lambda>k. map_option (\<lambda>x. PStr (meta_str K x)) (cv_metadata v k)) = cv_metadata v"
  proof (rule ext)
    fix k
    show "map_option (\<lambda>x. PStr (meta_str K x)) (cv_metadata v k) = cv_metadata v k"
    proof (cases "cv_metadata v k")
      case None
      then show ?thesis by simp
    next
      case (Some x)
      with assms(1) obtain s where "x = PStr s" by blast
      with Some show ?thesis by simp
    qed
  qed
  moreover have "(case cv_parent_version_id v of None \<Rightarrow> None
                  | Some p \<Rightarrow> if p = [] then None else Some p) = cv_parent_version_id v"
    using assms(2) by (cases "cv_parent_version_id v") auto
  ultimately show ?thesis by (simp add: stored_form_def)
qed

lemma stored_form_idem: "stored_form K (stored_form K v) = stored_form K v"
proof -
  have "(\<lambda>k. map_option (\<lambda>x. PStr (meta_str K x))
               (map_option (\<lambda>x. PStr (meta_str K x)) (cv_metadata v k)))
        = (\<lambda>k. map_option (\<lambda>x. PStr (meta_str K x)) (cv_metadata v k))"
    by (rule ext) (simp add: option.map_comp comp_def)
  then show ?thesis
    by (cases "cv_parent_version_id v") (simp_all add: stored_form_def)
qed

lemma stored_form_status: "stored_form K (v\<lparr>cv_status := s\<rparr>) = (stored_form K v)\<lparr>cv_status := s\<rparr>"
  by (simp add: stored_form_def)

lemma absent_after_delete: "\<not> present (collection_delete i col) i"
  by (auto simp: present_def collection_get_def collection_delete_def map_of_eq_None_iff)

lemma collection_delete_absent: "\<not> present col i \<Longrightarrow> collection_delete i col = col"
proof -
  assume "\<not> present col i"
  then have "map_of col i = None"
    unfolding present_def collection_get_def by blast
  then have "i \<notin> fst ` set col"
    by (simp add: map_of_eq_None_iff)
  then have "\<forall>r \<in> set col. fst r \<noteq> i" by auto
  then show ?thesis
    by (simp add: collection_delete_def)
qed

lemma collection_get_delete_other:
  "j \<noteq> i \<Longrightarrow> collection_get (collection_delete i col) j = collection_get col j"
  by (induction col) (auto simp: collection_get_def collection_delete_def)

subsection \<open>The concrete stores\<close>

lemma pipeline_store_records:
  "pipeline_store =
     [(''v1'', cv_content v_research, chroma_metadata sample_lib sample_digest v_research),
      (''v2'', cv_content v_draft, chroma_metadata sample_lib sample_digest v_draft),
      (''v3'', cv_content v_spun, chroma_metadata sample_lib sample_digest v_spun)]"
proof -
  have "\<not> has_surrogate (cv_content v_research)" "\<not> has_surrogate (cv_content v_draft)"
       "\<not> has_surrogate (cv_content v_spun)"
    by (simp_all add: v_research_def v_draft_def v_spun_def)
  then show ?thesis
    by (simp add: pipeline_store_def save_version_sample collection_add_def
          v_research_def v_draft_def v_spun_def)
qed

lemma pipeline_store_v2:
  "collection_get pipeline_store (cv_id v_draft)
     = Some (cv_content v_draft, chroma_metadata sample_lib sample_digest v_draft)"
  by (simp add: pipeline_store_records collection_get_def v_draft_def)

lemma pipeline_versions:
  "get_chapter_versions sample_lib us ''A'' pipeline_store =
     [stored_form sample_lib v_research, stored_form sample_lib v_draft,
      stored_form sample_lib v_spun]"
proof -
  have ids: "cv_id v_research \<noteq> []" "cv_id v_draft \<noteq> []" "cv_id v_spun \<noteq> []"
    by (simp_all add: v_research_def v_draft_def v_spun_def)
  have chap: "cv_chapter_id v_research = ''A''" "cv_chapter_id v_draft = ''A''"
      "cv_chapter_id v_spun = ''A''"
    by (simp_all add: v_research_def v_draft_def v_spun_def)
  have res: "collection_get_where pipeline_store ''chapter_id'' (CStr ''A'') =
     [(cv_content v_research, chroma_metadata sample_lib sample_digest v_research),
      (cv_content v_draft, chroma_metadata sample_lib sample_digest v_draft),
      (cv_content v_spun, chroma_metadata sample_lib sample_digest v_spun)]"
    by (simp add: pipeline_store_records collection_get_where_def chroma_metadata_fixed chap)
  have t: "cv_created_at (stored_form sample_lib v_research) = 1"
       "cv_created_at (stored_form sample_lib v_draft) = 2"
       "cv_created_at (stored_form sample_lib v_spun) = 3"
    by (simp_all add: stored_form_def v_research_def v_draft_def v_spun_def)
  show ?thesis
    by (simp add: get_chapter_versions_def res enumerate_eq_zip upt_rec
          version_of_record_chroma_metadata [OF sample_lib_ok] ids t)
qed

lemma late_parent_versions:
  "get_chapter_versions sample_lib us ''B'' late_parent_store =
     [stored_form sample_lib v_child_early, stored_form sample_lib v_root_late]"
proof -
  have store: "late_parent_store =
     [(''r1'', cv_content v_root_late, chroma_metadata sample_lib sample_digest v_root_late),
      (''c1'', cv_content v_child_early, chroma_metadata sample_lib sample_digest v_child_early)]"
  proof -
    have "\<not> has_surrogate (cv_content v_root_late)" "\<not> has_surrogate (cv_content v_child_early)"
      by (simp_all add: v_root_late_def v_child_early_def)
    then show ?thesis
      by (simp add: late_parent_store_def save_version_sample collection_add_def
            v_root_late_def v_child_early_def)
  qed
  have ids: "cv_id v_root_late \<noteq> []" "cv_id v_child_early \<noteq> []"
    by (simp_all add: v_root_late_def v_child_early_def)
  have chap: "cv_chapter_id v_root_late = ''B''" "cv_chapter_id v_child_early = ''B''"
    by (simp_all add: v_root_late_def v_child_early_def)
  have res: "collection_get_where late_parent_store ''chapter_id'' (CStr ''B'') =
     [(cv_content v_root_late, chroma_metadata sample_lib sample_digest v_root_late),
      (cv_content v_child_early, chroma_metadata sample_lib sample_digest v_child_early)]"
    by (simp add: store collection_get_where_def chroma_metadata_fixed chap)
  have t: "cv_created_at (stored_form sample_lib v_root_late) = 2"
       "cv_created_at (stored_form sample_lib v_child_early) = 1"
    by (simp_all add: stored_form_def v_root_late_def v_child_early_def)
  show ?thesis
    by (simp add: get_chapter_versions_def res enumerate_eq_zip upt_rec
          version_of_record_chroma_metadata [OF sample_lib_ok] ids t)
qed

subsection \<open>Round trip\<close>

text \<open>
  C5, as the code has it. Let \<open>save_version\<close> accept a version \<open>v\<close> whose id is not yet
  in the collection. Then \<open>get_version\<close> of that id returns \<open>stored_form K v\<close>: the id, the
  chapter id, the content and so its hash, the status, the agent type and the creation
  time are those of \<open>v\<close>; every metadata value comes back as the string that was stored
  for it, and an empty parent id comes back as \<open>None\<close>. The version returned is \<open>v\<close> itself
  when all its metadata values are strings and its parent id is not the empty string.
\<close>

theorem save_then_get_gives_stored_form:
  assumes "pylib_ok K" and "\<not> present col (cv_id v)" and "fst (save_version K v col)"
  shows "get_version K u (cv_id v) (snd (save_version K v col)) = Some (stored_form K v) \<and>
         cv_id (stored_form K v) = cv_id v \<and>
         cv_chapter_id (stored_form K v) = cv_chapter_id v \<and>
         cv_content (stored_form K v) = cv_content v \<and>
         get_content_hash K (stored_form K v) = get_content_hash K v \<and>
         cv_status (stored_form K v) = cv_status v \<and>
         cv_agent_type (stored_form K v) = cv_agent_type v \<and>
         cv_created_at (stored_form K v) = cv_created_at v \<and>
         ((\<forall>k x. cv_metadata v k = Some x \<longrightarrow> (\<exists>s. x = PStr s)) \<and>
          cv_parent_version_id v \<noteq> Some []
            \<longrightarrow> stored_form K v = v)"
  using get_version_after_save [OF assms] stored_form_strings [of v K]
  by (simp add: stored_form_fields)

theorem save_then_get_gives_stored_form_witness:
  "pylib_ok sample_lib \<and> \<not> present [] (cv_id v_research) \<and>
   fst (save_version sample_lib v_research []) \<and>
   cv_parent_version_id v_research \<noteq> Some [] \<and>
   get_version sample_lib uuid_a (cv_id v_research) (snd (save_version sample_lib v_research []))
     = Some v_research"
proof -
  have h1: "\<not> present [] (cv_id v_research)"
    by (simp add: present_def collection_get_def)
  have h2: "fst (save_version sample_lib v_research [])"
    by (simp add: save_version_sample v_research_def)
  have h3: "\<forall>k x. cv_metadata v_research k = Some x \<longrightarrow> (\<exists>s. x = PStr s)"
    by (simp add: v_research_def)
  have h4: "cv_parent_version_id v_research \<noteq> Some []"
    by (simp add: v_research_def)
  show ?thesis
    using save_then_get_gives_stored_form [OF sample_lib_ok h1 h2, of uuid_a]
      h1 h2 h3 h4 sample_lib_ok
    by simp
qed

text \<open>
  The draft carries the metadata \<open>word_count = 2\<close>, an integer. Saved into the empty
  collection and read back, it carries the string \<open>''2''\<close> instead, so what \<open>get_version\<close>
  returns is not the version that was saved.
\<close>

theorem get_after_save_differs_counterexample:
  "fst (save_version sample_lib v_draft []) \<and>
   get_version sample_lib uuid_a (cv_id v_draft) (snd (save_version sample_lib v_draft []))
     \<noteq> Some v_draft"
proof -
  have h1: "\<not> present [] (cv_id v_draft)"
    by (simp add: present_def collection_get_def)
  have h2: "fst (save_version sample_lib v_draft [])"
    by (simp add: save_version_sample v_draft_def)
  have "cv_metadata (stored_form sample_lib v_draft) ''word_count''
          \<noteq> cv_metadata v_draft ''word_count''"
    by (simp add: stored_form_def v_draft_def)
  then have "stored_form sample_lib v_draft \<noteq> v_draft" by auto
  with get_version_after_save [OF sample_lib_ok h1 h2, of uuid_a] h2 show ?thesis by simp
qed

section \<open>Deleting\<close>

text \<open>
  C6, as the code has it. \<open>delete_version\<close> reports success for every id, whether the
  collection holds it or not: afterwards the id is absent and every other record is as it
  was, and when the id was absent the collection is unchanged. Nothing tells the caller
  that there was nothing to delete.
\<close>

theorem delete_version_reports_success:
  "fst (delete_version i col) \<and>
   \<not> present (snd (delete_version i col)) i \<and>
   (\<forall>j. j \<noteq> i \<longrightarrow> collection_get (snd (delete_version i col)) j = collection_get col j) \<and>
   (\<not> present col i \<longrightarrow> snd (delete_version i col) = col)"
  by (simp add: delete_version_def absent_after_delete collection_delete_absent
        collection_get_delete_other)

theorem delete_version_reports_success_witness:
  "''v2'' \<noteq> ''v1'' \<and> \<not> present [] ''v1'' \<and>
   fst (delete_version ''v1'' pipeline_store) \<and>
   \<not> present (snd (delete_version ''v1'' pipeline_store)) ''v1'' \<and>
   collection_get (snd (delete_version ''v1'' pipeline_store)) ''v2''
     = collection_get pipeline_store ''v2'' \<and>
   snd (delete_version ''v1'' []) = []"
  using delete_version_reports_success [of "''v1''" pipeline_store]
        delete_version_reports_success [of "''v1''" "[]"]
  by (simp add: present_def collection_get_def)

text \<open>
  The id \<open>never-stored\<close> is not in the empty collection, and deleting it returns \<open>True\<close>
  like any successful deletion.
\<close>

theorem delete_unknown_id_counterexample:
  "\<not> present [] ''never-stored'' \<and> delete_version ''never-stored'' [] = (True, [])"
  by (simp add: present_def collection_get_def delete_version_def collection_delete_def)

section \<open>Updating the status\<close>

text \<open>
  C1, as the code has it. Let the collection hold, under the id of \<open>w\<close>, the record that
  \<open>save_version\<close> writes for \<open>w\<close>. Then \<open>update_version_status\<close> takes the collection
  through three states: the one at entry, where the id is present; the one after the
  deletion, where the id is absent; and the final one, after \<open>save_version\<close> has run on
  the updated version. When the \<open>add\<close> does not raise, the call succeeds and reading the
  id afterwards gives the stored version with the new status and nothing else changed.
  When the \<open>add\<close> raises, the call returns \<open>False\<close> and the final state is the one after
  the deletion: the id stays absent.
\<close>

theorem update_version_status_deletes_then_adds:
  assumes "pylib_ok K"
      and "get_content_hash K w = Some h"
      and "collection_get col (cv_id w) = Some (cv_content w, chroma_metadata K h w)"
      and "cv_id w \<noteq> []" and "cv_chapter_id w \<noteq> []" and "cv_content w \<noteq> []"
  shows "update_version_status_states K u (cv_id w) s col =
           [col, collection_delete (cv_id w) col, snd (update_version_status K u (cv_id w) s col)] \<and>
         present col (cv_id w) \<and>
         \<not> present (collection_delete (cv_id w) col) (cv_id w) \<and>
         (if add_raises K (cv_id w) (cv_content w)
               (chroma_metadata K h ((stored_form K w)\<lparr>cv_status := s\<rparr>))
          then update_version_status K u (cv_id w) s col
                 = (False, collection_delete (cv_id w) col)
          else fst (update_version_status K u (cv_id w) s col) \<and>
               get_version K u' (cv_id w) (snd (update_version_status K u (cv_id w) s col))
                 = Some ((stored_form K w)\<lparr>cv_status := s\<rparr>))"
proof -
  let ?v = "(stored_form K w)\<lparr>cv_status := s\<rparr>"
  let ?del = "collection_delete (cv_id w) col"
  have g: "get_version K u (cv_id w) col = Some (stored_form K w)"
    using assms by (simp add: get_version_written)
  have upd: "update_version_status K u (cv_id w) s col = save_version K ?v ?del"
    by (simp add: update_version_status_def g)
  have id: "cv_id ?v = cv_id w" "cv_chapter_id ?v = cv_chapter_id w" "cv_content ?v = cv_content w"
    by (simp_all add: stored_form_fields)
  have hash: "get_content_hash K ?v = Some h"
    using assms(2) by (simp add: get_content_hash_def stored_form_fields)
  have p: "present col (cv_id w)"
    using assms(3) by (simp add: present_def)
  have st: "update_version_status_states K u (cv_id w) s col = [col, ?del, snd (save_version K ?v ?del)]"
    by (simp add: update_version_status_states_def g)
  show ?thesis
  proof (cases "add_raises K (cv_id w) (cv_content w) (chroma_metadata K h ?v)")
    case True
    then have "save_version K ?v ?del = (False, ?del)"
      using assms(4,5,6) by (simp add: save_version_def save_version_run_def id hash)
    with True p show ?thesis
      by (simp add: st upd absent_after_delete)
  next
    case False
    then have ok: "fst (save_version K ?v ?del)"
      using assms(4,5,6) by (simp add: save_version_def save_version_run_def id hash)
    have fresh: "\<not> present ?del (cv_id ?v)"
      by (simp add: id absent_after_delete)
    have "get_version K u' (cv_id ?v) (snd (save_version K ?v ?del)) = Some (stored_form K ?v)"
      using get_version_after_save [OF assms(1) fresh ok] .
    then have rt: "get_version K u' (cv_id w) (snd (save_version K ?v ?del)) = Some ?v"
      by (simp add: id stored_form_status stored_form_idem)
    from False ok rt p show ?thesis
      by (simp add: st upd absent_after_delete)
  qed
qed

theorem update_version_status_deletes_then_adds_witness:
  "pylib_ok sample_lib \<and>
   get_content_hash sample_lib v_draft = Some sample_digest \<and>
   collection_get pipeline_store (cv_id v_draft)
     = Some (cv_content v_draft, chroma_metadata sample_lib sample_digest v_draft) \<and>
   cv_id v_draft \<noteq> [] \<and> cv_chapter_id v_draft \<noteq> [] \<and> cv_content v_draft \<noteq> [] \<and>
   \<not> present (collection_delete (cv_id v_draft) pipeline_store) (cv_id v_draft) \<and>
   fst (update_version_status sample_lib uuid_a (cv_id v_draft) FINALIZED pipeline_store) \<and>
   get_version sample_lib uuid_b (cv_id v_draft)
       (snd (update_version_status sample_lib uuid_a (cv_id v_draft) FINALIZED pipeline_store))
     = Some ((stored_form sample_lib v_draft)\<lparr>cv_status := FINALIZED\<rparr>)"
proof -
  have h: "cv_id v_draft \<noteq> []" "cv_chapter_id v_draft \<noteq> []" "cv_content v_draft \<noteq> []"
    by (simp_all add: v_draft_def)
  have d: "get_content_hash sample_lib v_draft = Some sample_digest"
    by (simp add: get_content_hash_def sample_lib_def v_draft_def)
  have a: "\<not> add_raises sample_lib (cv_id v_draft) (cv_content v_draft)
               (chroma_metadata sample_lib sample_digest
                  ((stored_form sample_lib v_draft)\<lparr>cv_status := FINALIZED\<rparr>))"
    by (simp add: sample_lib_def)
  show ?thesis
    using update_version_status_deletes_then_adds
            [OF sample_lib_ok d pipeline_store_v2 h, of uuid_a FINALIZED uuid_b]
          sample_lib_ok d pipeline_store_v2 h a
    by simp
qed

text \<open>
  The draft \<open>v2\<close> is in the pipeline's collection; in the second of the states that an
  update of its status goes through, it is not.
\<close>

theorem update_version_status_absent_window_counterexample:
  "present pipeline_store ''v2'' \<and>
   \<not> present (update_version_status_states sample_lib uuid_a ''v2'' FINALIZED pipeline_store ! 1)
       ''v2''"
proof -
  have h: "cv_id v_draft \<noteq> []" "cv_content v_draft \<noteq> []"
    by (simp_all add: v_draft_def)
  have i: "cv_id v_draft = ''v2''" by (simp add: v_draft_def)
  have g: "get_version sample_lib uuid_a ''v2'' pipeline_store = Some (stored_form sample_lib v_draft)"
    using get_version_written [OF sample_lib_ok pipeline_store_v2 h, of uuid_a] by (simp add: i)
  have p: "present pipeline_store ''v2''"
    using pipeline_store_v2 by (simp add: present_def i)
  show ?thesis
    using p by (simp add: update_version_status_states_def g absent_after_delete)
qed

section \<open>Similarity search\<close>

text \<open>
  C3, on a concrete query result. The one document found lies at distance 0.5, so its
  similarity is 0.5, below the configured threshold of 0.8. The loop skips a result only
  when its similarity is below one minus the threshold, that is below 0.2, so this
  result is returned.
\<close>

theorem search_returns_below_threshold:
  "search_similar_content sample_lib (\<lambda>i. uuid_a) half_distance_result
     = [(stored_form sample_lib v_draft, 0.5)] \<and>
   (0.5 :: real) < SIMILARITY_THRESHOLD"
proof -
  have h: "cv_id v_draft \<noteq> []" by (simp add: v_draft_def)
  have row: "search_row sample_lib uuid_a half_distance_result 0
          = Some (Some (stored_form sample_lib v_draft, 0.5))"
    by (simp add: search_row_def half_distance_result_def nth_opt_def SIMILARITY_THRESHOLD_def
          version_of_record_chroma_metadata [OF sample_lib_ok h])
  have len: "[0..<length (qr_documents half_distance_result)] = [0]"
    by (simp add: half_distance_result_def)
  have "search_similar_content sample_lib (\<lambda>i. uuid_a) half_distance_result
          = [(stored_form sample_lib v_draft, 0.5)]"
    unfolding search_similar_content_def len by (simp add: row)
  moreover have "(0.5 :: real) < SIMILARITY_THRESHOLD"
    by (simp add: SIMILARITY_THRESHOLD_def)
  ultimately show ?thesis by simp
qed

section \<open>The version tree\<close>

text \<open>
  C2, on two concrete chapters. In the tree of chapter \<open>A\<close>, whose versions form the chain
  \<open>v1\<close>, \<open>v2\<close>, \<open>v3\<close>, the id \<open>v2\<close> occurs twice: as a child of \<open>v1\<close>, and as a top-level
  stub made to hold \<open>v3\<close>, since \<open>v2\<close> is looked for among the top-level keys only. In the
  tree of chapter \<open>B\<close>, whose root \<open>r1\<close> is sorted after its child \<open>c1\<close>, the child does
  not occur at all: the entry for the root replaces the stub that held it.
\<close>

theorem version_tree_miscounts:
  "occurrences (get_version_tree sample_lib (\<lambda>i. uuid_a) ''A'' pipeline_store) ''v2'' = 2 \<and>
   map fst (get_version_tree sample_lib (\<lambda>i. uuid_a) ''A'' pipeline_store) = [''v1'', ''v2''] \<and>
   occurrences (get_version_tree sample_lib (\<lambda>i. uuid_a) ''B'' late_parent_store) ''c1'' = 0"
  by (simp add: get_version_tree_def pipeline_versions late_parent_versions tree_step_def
        info_of_version_def stored_form_def v_research_def v_draft_def v_spun_def
        v_root_late_def v_child_early_def occurrences_def forest_ids_def)

section \<open>The review queue\<close>

lemma edit_metadata_serializable:
  "map_option (make_serializable K) \<circ>
     [ ''feedback'' \<mapsto> PStr feedback,
       ''review_id'' \<mapsto> PStr review_id,
       ''reviewer_name'' \<mapsto> PStr reviewer_name,
       ''review_type'' \<mapsto> PStr review_type,
       ''review_completed_at'' \<mapsto> PStr completed_at ]
   = [ ''feedback'' \<mapsto> PStr feedback,
       ''review_id'' \<mapsto> PStr review_id,
       ''reviewer_name'' \<mapsto> PStr reviewer_name,
       ''review_type'' \<mapsto> PStr review_type,
       ''review_completed_at'' \<mapsto> PStr completed_at ]"
  by (rule ext) simp

lemma complete_review_pending:
  assumes "pending_reviews hri review_id = Some review"
  shows "complete_review K u u' now1 now2 review_id updated_content feedback reviewer_name hri
         = (Some \<lparr> cv_id = Rep_uuid_str u,
                    cv_chapter_id = rr_chapter_id review,
                    cv_content = updated_content,
                    cv_status = HUMAN_EDITED,
                    cv_agent_type = HUMAN_EDITOR,
                    cv_metadata =
                      [ ''feedback'' \<mapsto> PStr feedback,
                        ''review_id'' \<mapsto> PStr review_id,
                        ''reviewer_name'' \<mapsto> PStr reviewer_name,
                        ''review_type'' \<mapsto> PStr (rr_review_type review),
                        ''review_completed_at'' \<mapsto> PStr (isoformat K now1) ],
                    cv_created_at = now2,
                    cv_parent_version_id = Some (cv_id (rr_version review)) \<rparr>,
            hri\<lparr> completed_reviews :=
                   (completed_reviews hri)
                     (review_id \<mapsto> review\<lparr>rr_status := ''completed'', rr_reviewer_notes := feedback\<rparr>),
                 pending_reviews := (pending_reviews hri)(review_id := None) \<rparr>)"
  using assms
  by (simp add: complete_review_def ContentVersion_init_def Rep_uuid_str_nonempty Let_def
        edit_metadata_serializable)

lemma complete_review_absent:
  "pending_reviews hri review_id = None \<Longrightarrow>
   complete_review K u u' now1 now2 review_id updated_content feedback reviewer_name hri = (None, hri)"
  by (simp add: complete_review_def)

lemma one_pending_request:
  "pending_reviews one_pending (Rep_uuid_str uuid_a)
     = Some \<lparr> rr_id = Rep_uuid_str uuid_a, rr_chapter_id = ''A'', rr_version = v_spun,
              rr_review_type = ''general'', rr_submitted_at = 10, rr_status = ''pending'',
              rr_reviewer_notes = [] \<rparr>"
  by (simp add: one_pending_def submit_for_human_review_def HumanReviewInterface_init_def Let_def)

lemma one_pending_other: "pending_reviews one_pending ''no-such-review'' = None"
  by (simp add: one_pending_def submit_for_human_review_def HumanReviewInterface_init_def
        Let_def Rep_uuid_a)

text \<open>
  C7. For a review id in the pending dictionary, \<open>complete_review\<close> returns a new version:
  its id is the UUID just drawn, its chapter is the request's, its content is the edited
  content, its status is \<open>HUMAN_EDITED\<close>, its agent type \<open>HUMAN_EDITOR\<close>, its parent the
  id of the version under review, its creation time the reading of the clock, and its
  metadata hold the feedback, the review id, the reviewer's name, the review type and the
  time of completion. The request, now with status \<open>completed\<close> and the feedback as its
  notes, is in the completed dictionary and no longer in the pending one; every other
  request is where it was. For a review id that is not in the pending dictionary the
  call returns \<open>None\<close> and changes nothing.
\<close>

theorem complete_review_moves_request:
  "(\<forall>review. pending_reviews hri review_id = Some review \<longrightarrow>
      (\<exists>nv hri'. complete_review K u u' now1 now2 review_id updated_content feedback reviewer_name hri
                   = (Some nv, hri') \<and>
           cv_id nv = Rep_uuid_str u \<and>
           cv_chapter_id nv = rr_chapter_id review \<and>
           cv_content nv = updated_content \<and>
           cv_status nv = HUMAN_EDITED \<and>
           cv_agent_type nv = HUMAN_EDITOR \<and>
           cv_created_at nv = now2 \<and>
           cv_parent_version_id nv = Some (cv_id (rr_version review)) \<and>
           cv_metadata nv =
             [ ''feedback'' \<mapsto> PStr feedback,
               ''review_id'' \<mapsto> PStr review_id,
               ''reviewer_name'' \<mapsto> PStr reviewer_name,
               ''review_type'' \<mapsto> PStr (rr_review_type review),
               ''review_completed_at'' \<mapsto> PStr (isoformat K now1) ] \<and>
           completed_reviews hri' =
             (completed_reviews hri)
               (review_id \<mapsto> review\<lparr>rr_status := ''completed'', rr_reviewer_notes := feedback\<rparr>) \<and>
           pending_reviews hri' = (pending_reviews hri)(review_id := None))) \<and>
   (pending_reviews hri review_id = None \<longrightarrow>
      complete_review K u u' now1 now2 review_id updated_content feedback reviewer_name hri
        = (None, hri))"
proof (intro conjI allI impI)
  fix review
  assume "pending_reviews hri review_id = Some review"
  from complete_review_pending [OF this, of K u u' now1 now2 updated_content feedback reviewer_name]
  show "\<exists>nv hri'. complete_review K u u' now1 now2 review_id updated_content feedback reviewer_name hri
                   = (Some nv, hri') \<and>
           cv_id nv = Rep_uuid_str u \<and>
           cv_chapter_id nv = rr_chapter_id review \<and>
           cv_content nv = updated_content \<and>
           cv_status nv = HUMAN_EDITED \<and>
           cv_agent_type nv = HUMAN_EDITOR \<and>
           cv_created_at nv = now2 \<and>
           cv_parent_version_id nv = Some (cv_id (rr_version review)) \<and>
           cv_metadata nv =
             [ ''feedback'' \<mapsto> PStr feedback,
               ''review_id'' \<mapsto> PStr review_id,
               ''reviewer_name'' \<mapsto> PStr reviewer_name,
               ''review_type'' \<mapsto> PStr (rr_review_type review),
               ''review_completed_at'' \<mapsto> PStr (isoformat K now1) ] \<and>
           completed_reviews hri' =
             (completed_reviews hri)
               (review_id \<mapsto> review\<lparr>rr_status := ''completed'', rr_reviewer_notes := feedback\<rparr>) \<and>
           pending_reviews hri' = (pending_reviews hri)(review_id := None)"
    by simp
next
  assume "pending_reviews hri review_id = None"
  then show "complete_review K u u' now1 now2 review_id updated_content feedback reviewer_name hri
               = (None, hri)"
    by (rule complete_review_absent)
qed

theorem complete_review_moves_request_witness:
  "pending_reviews one_pending (Rep_uuid_str uuid_a) \<noteq> None \<and>
   pending_reviews one_pending ''no-such-review'' = None \<and>
   map_option cv_id
     (fst (complete_review sample_lib uuid_b uuid_b 20 21 (Rep_uuid_str uuid_a)
             ''Final text'' ''looks good'' ''Alice'' one_pending)) = Some (Rep_uuid_str uuid_b) \<and>
   map_option cv_content
     (fst (complete_review sample_lib uuid_b uuid_b 20 21 (Rep_uuid_str uuid_a)
             ''Final text'' ''looks good'' ''Alice'' one_pending)) = Some ''Final text'' \<and>
   map_option cv_status
     (fst (complete_review sample_lib uuid_b uuid_b 20 21 (Rep_uuid_str uuid_a)
             ''Final text'' ''looks good'' ''Alice'' one_pending)) = Some HUMAN_EDITED \<and>
   map_option cv_parent_version_id
     (fst (complete_review sample_lib uuid_b uuid_b 20 21 (Rep_uuid_str uuid_a)
             ''Final text'' ''looks good'' ''Alice'' one_pending)) = Some (Some ''v3'') \<and>
   map_option rr_status
     (completed_reviews
        (snd (complete_review sample_lib uuid_b uuid_b 20 21 (Rep_uuid_str uuid_a)
                ''Final text'' ''looks good'' ''Alice'' one_pending))
        (Rep_uuid_str uuid_a)) = Some ''completed'' \<and>
   pending_reviews
     (snd (complete_review sample_lib uuid_b uuid_b 20 21 (Rep_uuid_str uuid_a)
             ''Final text'' ''looks good'' ''Alice'' one_pending))
     (Rep_uuid_str uuid_a) = None \<and>
   complete_review sample_lib uuid_b uuid_b 20 21 ''no-such-review''
       ''Final text'' ''looks good'' ''Alice'' one_pending = (None, one_pending)"
  using complete_review_moves_request
          [of one_pending "Rep_uuid_str uuid_a" sample_lib uuid_b uuid_b 20 21
              "''Final text''" "''looks good''" "''Alice''"]
        complete_review_moves_request
          [of one_pending "''no-such-review''" sample_lib uuid_b uuid_b 20 21
              "''Final text''" "''looks good''" "''Alice''"]
        one_pending_request one_pending_other
  by (auto simp: v_spun_def)

text \<open>
  C9. After \<open>reject_review\<close> on a pending request, the request is still in the pending
  dictionary, with status \<open>rejected\<close> and the reason as its notes, and nothing else has
  changed. \<open>get_review_details\<close> finds it and shows that request: its id, chapter, type,
  submission time and version, the status \<open>rejected\<close> and the reason.
  \<open>get_pending_reviews\<close>, whatever its filters, leaves it out and lists every other
  request as before. A later \<open>complete_review\<close> of the same id succeeds all the same:
  it returns a new version with the UUID just drawn as its id, the edited content, the
  status \<open>HUMAN_EDITED\<close>, the agent type \<open>HUMAN_EDITOR\<close> and the version under review as
  its parent, and the request moves from the pending dictionary to the completed one,
  with status \<open>completed\<close> and the feedback as its notes.
\<close>

theorem rejected_review_can_still_be_completed:
  assumes "pending_reviews hri review_id = Some review"
  shows "\<exists>hri1 details nv hri2.
           reject_review review_id reason hri = (True, hri1) \<and>
           pending_reviews hri1
             = (pending_reviews hri)
                 (review_id \<mapsto> review\<lparr>rr_status := ''rejected'', rr_reviewer_notes := reason\<rparr>) \<and>
           completed_reviews hri1 = completed_reviews hri \<and>
           get_review_details K review_id hri1 = Some details \<and>
           rd_review_id details = review_id \<and>
           rd_chapter_id details = rr_chapter_id review \<and>
           rd_review_type details = rr_review_type review \<and>
           rd_status details = ''rejected'' \<and>
           rd_submitted_at details = isoformat K (rr_submitted_at review) \<and>
           rd_reviewer_notes details = reason \<and>
           rvi_version_id (rd_version_info details) = cv_id (rr_version review) \<and>
           rvi_status (rd_version_info details) = ContentStatus_value (cv_status (rr_version review)) \<and>
           rvi_agent_type (rd_version_info details)
             = AgentType_value (cv_agent_type (rr_version review)) \<and>
           rvi_created_at (rd_version_info details) = isoformat K (cv_created_at (rr_version review)) \<and>
           rvi_content_length (rd_version_info details) = length (cv_content (rr_version review)) \<and>
           rvi_content_preview (rd_version_info details)
             = (if length (cv_content (rr_version review)) > 200
                then take 200 (cv_content (rr_version review)) @ ''...''
                else cv_content (rr_version review)) \<and>
           get_pending_reviews chapter_filter type_filter hri1 review_id = None \<and>
           (\<forall>r. r \<noteq> review_id \<longrightarrow>
                get_pending_reviews chapter_filter type_filter hri1 r
                  = get_pending_reviews chapter_filter type_filter hri r) \<and>
           complete_review K u u' now1 now2 review_id updated_content feedback reviewer_name hri1
             = (Some nv, hri2) \<and>
           cv_id nv = Rep_uuid_str u \<and>
           cv_chapter_id nv = rr_chapter_id review \<and>
           cv_content nv = updated_content \<and>
           cv_status nv = HUMAN_EDITED \<and>
           cv_agent_type nv = HUMAN_EDITOR \<and>
           cv_created_at nv = now2 \<and>
           cv_parent_version_id nv = Some (cv_id (rr_version review)) \<and>
           cv_metadata nv =
             [ ''feedback'' \<mapsto> PStr feedback,
               ''review_id'' \<mapsto> PStr review_id,
               ''reviewer_name'' \<mapsto> PStr reviewer_name,
               ''review_type'' \<mapsto> PStr (rr_review_type review),
               ''review_completed_at'' \<mapsto> PStr (isoformat K now1) ] \<and>
           completed_reviews hri2
             = (completed_reviews hri)
                 (review_id \<mapsto> review\<lparr>rr_status := ''completed'', rr_reviewer_notes := feedback\<rparr>) \<and>
           pending_reviews hri2 = (pending_reviews hri)(review_id := None)"
proof -
  let ?rej = "review\<lparr>rr_status := ''rejected'', rr_reviewer_notes := reason\<rparr>"
  let ?hri1 = "hri\<lparr>pending_reviews := (pending_reviews hri)(review_id \<mapsto> ?rej)\<rparr>"
  have r: "reject_review review_id reason hri = (True, ?hri1)"
    using assms by (simp add: reject_review_def)
  have p1: "pending_reviews ?hri1 review_id = Some ?rej" by simp
  let ?d = "\<lparr> rd_review_id = review_id,
            rd_chapter_id = rr_chapter_id review,
            rd_review_type = rr_review_type review,
            rd_status = ''rejected'',
            rd_submitted_at = isoformat K (rr_submitted_at review),
            rd_version_info =
              \<lparr> rvi_version_id = cv_id (rr_version review),
                rvi_status = ContentStatus_value (cv_status (rr_version review)),
                rvi_agent_type = AgentType_value (cv_agent_type (rr_version review)),
                rvi_created_at = isoformat K (cv_created_at (rr_version review)),
                rvi_content_length = length (cv_content (rr_version review)),
                rvi_content_preview =
                  (if length (cv_content (rr_version review)) > 200
                   then take 200 (cv_content (rr_version review)) @ ''...''
                   else cv_content (rr_version review)) \<rparr>,
            rd_reviewer_notes = reason \<rparr>"
  let ?nv = "\<lparr> cv_id = Rep_uuid_str u,
            cv_chapter_id = rr_chapter_id review,
            cv_content = updated_content,
            cv_status = HUMAN_EDITED,
            cv_agent_type = HUMAN_EDITOR,
            cv_metadata =
              [ ''feedback'' \<mapsto> PStr feedback,
                ''review_id'' \<mapsto> PStr review_id,
                ''reviewer_name'' \<mapsto> PStr reviewer_name,
                ''review_type'' \<mapsto> PStr (rr_review_type review),
                ''review_completed_at'' \<mapsto> PStr (isoformat K now1) ],
            cv_created_at = now2,
            cv_parent_version_id = Some (cv_id (rr_version review)) \<rparr>"
  let ?hri2 = "hri\<lparr> completed_reviews :=
                   (completed_reviews hri)
                     (review_id \<mapsto> review\<lparr>rr_status := ''completed'', rr_reviewer_notes := feedback\<rparr>),
                 pending_reviews := (pending_reviews hri)(review_id := None) \<rparr>"
  have d: "get_review_details K review_id ?hri1 = Some ?d"
    by (simp add: get_review_details_def)
  have l: "get_pending_reviews chapter_filter type_filter ?hri1 review_id = None"
    by (simp add: get_pending_reviews_def)
  have f: "\<forall>r. r \<noteq> review_id \<longrightarrow>
             get_pending_reviews chapter_filter type_filter ?hri1 r
               = get_pending_reviews chapter_filter type_filter hri r"
    by (simp add: get_pending_reviews_def)
  have c: "complete_review K u u' now1 now2 review_id updated_content feedback reviewer_name ?hri1
             = (Some ?nv, ?hri2)"
    using complete_review_pending
            [OF p1, of K u u' now1 now2 updated_content feedback reviewer_name]
    by simp
  have v: "rd_version_info ?d =
              \<lparr> rvi_version_id = cv_id (rr_version review),
                rvi_status = ContentStatus_value (cv_status (rr_version review)),
                rvi_agent_type = AgentType_value (cv_agent_type (rr_version review)),
                rvi_created_at = isoformat K (cv_created_at (rr_version review)),
                rvi_content_length = length (cv_content (rr_version review)),
                rvi_content_preview =
                  (if length (cv_content (rr_version review)) > 200
                   then take 200 (cv_content (rr_version review)) @ ''...''
                   else cv_content (rr_version review)) \<rparr>"
    by simp
  show ?thesis
    apply (rule exI [of _ ?hri1])
    apply (rule exI [of _ ?d])
    apply (rule exI [of _ ?nv])
    apply (rule exI [of _ ?hri2])
    apply (simp only: r d c l v simp_thms)
    using f apply simp
    done
qed

theorem rejected_review_can_still_be_completed_witness:
  "pending_reviews one_pending (Rep_uuid_str uuid_a) \<noteq> None \<and>
   fst (reject_review (Rep_uuid_str uuid_a) ''too long'' one_pending) \<and>
   map_option rd_reviewer_notes
     (get_review_details sample_lib (Rep_uuid_str uuid_a)
        (snd (reject_review (Rep_uuid_str uuid_a) ''too long'' one_pending))) = Some ''too long'' \<and>
   get_pending_reviews None None (snd (reject_review (Rep_uuid_str uuid_a) ''too long'' one_pending))
     (Rep_uuid_str uuid_a) = None \<and>
   map_option cv_content
     (fst (complete_review sample_lib uuid_b uuid_b 20 21 (Rep_uuid_str uuid_a)
             ''Final text'' ''ok'' ''Alice''
             (snd (reject_review (Rep_uuid_str uuid_a) ''too long'' one_pending))))
     = Some ''Final text'' \<and>
   map_option cv_id
     (fst (complete_review sample_lib uuid_b uuid_b 20 21 (Rep_uuid_str uuid_a)
             ''Final text'' ''ok'' ''Alice''
             (snd (reject_review (Rep_uuid_str uuid_a) ''too long'' one_pending))))
     = Some (Rep_uuid_str uuid_b) \<and>
   map_option rr_status
     (completed_reviews
        (snd (complete_review sample_lib uuid_b uuid_b 20 21 (Rep_uuid_str uuid_a)
                ''Final text'' ''ok'' ''Alice''
                (snd (reject_review (Rep_uuid_str uuid_a) ''too long'' one_pending))))
        (Rep_uuid_str uuid_a)) = Some ''completed''"
  using rejected_review_can_still_be_completed
          [OF one_pending_request, where reason = "''too long''" and K = sample_lib
              and chapter_filter = None and type_filter = None and u = uuid_b and u' = uuid_b
              and ?now1.0 = 20 and ?now2.0 = 21 and updated_content = "''Final text''"
              and feedback = "''ok''" and reviewer_name = "''Alice''"]
        one_pending_request
  by auto

subsection \<open>Urgency\<close>

lemma hours_gt:
  "(hours_since_submission now s > real h) = (int (hours h) < int now - int s)"
proof -
  have "(hours_since_submission now s > real h)
        = (real h * 3600 * 1000000 < real_of_int (int now - int s))"
    by (simp add: hours_since_submission_def field_simps)
  also have "real h * 3600 * 1000000 = real_of_int (int (hours h))"
    by (simp add: hours_def)
  also have "(real_of_int (int (hours h)) < real_of_int (int now - int s))
             = (int (hours h) < int now - int s)"
    by (rule of_int_less_iff)
  finally show ?thesis .
qed

text \<open>
  C8. With the age of a request the time from its submission to now, in microseconds: the
  urgency is \<open>high\<close> exactly when the age is more than 72 hours, \<open>medium\<close> exactly when
  it is more than 24 hours and at most 72, and \<open>low\<close> exactly when it is at most 24 hours.
  A request submitted 25 hours ago is \<open>medium\<close>, one submitted 73 hours ago is \<open>high\<close>, one
  submitted an hour ago is \<open>low\<close>.
\<close>

theorem urgency_by_age:
  "(calculate_urgency now s = ''high'') = (int (hours 72) < int now - int s) \<and>
   (calculate_urgency now s = ''medium'')
      = (int (hours 24) < int now - int s \<and> int now - int s \<le> int (hours 72)) \<and>
   (calculate_urgency now s = ''low'') = (int now - int s \<le> int (hours 24)) \<and>
   calculate_urgency (s + hours 25) s = ''medium'' \<and>
   calculate_urgency (s + hours 73) s = ''high'' \<and>
   calculate_urgency (s + hours 1) s = ''low''"
proof -
  have h72: "(hours_since_submission now s > 72) = (int (hours 72) < int now - int s)" for now
    using hours_gt [of 72 now s] by simp
  have h24: "(hours_since_submission now s > 24) = (int (hours 24) < int now - int s)" for now
    using hours_gt [of 24 now s] by simp
  have mono: "int (hours 24) < int (hours 72)"
    by (simp add: hours_def)
  have gen: "(calculate_urgency now s = ''high'') = (int (hours 72) < int now - int s)"
       "(calculate_urgency now s = ''medium'')
          = (int (hours 24) < int now - int s \<and> int now - int s \<le> int (hours 72))"
       "(calculate_urgency now s = ''low'') = (int now - int s \<le> int (hours 24))" for now
    using mono by (auto simp: calculate_urgency_def h72 h24)
  have inst: "calculate_urgency (s + hours 25) s = ''medium''"
       "calculate_urgency (s + hours 73) s = ''high''"
       "calculate_urgency (s + hours 1) s = ''low''"
    by (simp_all add: gen hours_def)
  show ?thesis using gen inst by simp
qed

section \<open>The research phase\<close>

lemma research_tasks_Cons:
  "fst (research_tasks K envs i (c # cs) col) =
     (fst (research_chapter K (envs i) c col), fst (snd (research_chapter K (envs i) c col)))
     # fst (research_tasks K envs (Suc i) cs (snd (snd (research_chapter K (envs i) c col))))"
  by (simp add: Let_def split: prod.splits)

lemma research_chapter_returns: "\<exists>b. fst (research_chapter K env c col) = Returned b"
  by (auto simp: research_chapter_def Let_def split: outcome.splits prod.splits)

lemma research_tasks_length:
  "length (fst (research_tasks K envs i chapters col)) = length chapters"
proof (induction chapters arbitrary: i col)
  case Nil
  then show ?case by simp
next
  case (Cons c cs)
  show ?case
    unfolding research_tasks_Cons using Cons.IH by simp
qed

lemma research_tasks_returned:
  "\<forall>x \<in> set (fst (research_tasks K envs i chapters col)). \<exists>b. fst x = Returned b"
proof (induction chapters arbitrary: i col)
  case Nil
  then show ?case by simp
next
  case (Cons c cs)
  show ?case
    unfolding research_tasks_Cons
    using research_chapter_returns [of K "envs i" c col] Cons.IH by simp
qed

lemma phase_after_result:
  "\<exists>b. fst x = Returned b \<Longrightarrow>
   ch_current_phase (case x of (result, c) \<Rightarrow>
      (case result of Raised \<Rightarrow> c\<lparr>ch_current_phase := FAILED\<rparr>
                    | Returned b \<Rightarrow> c\<lparr>ch_current_phase := DRAFTING\<rparr>)) = DRAFTING"
  by (cases x) auto

text \<open>
  Whatever the research of the chapters gave, every chapter leaves the research phase in
  the phase \<open>DRAFTING\<close>: no task ever hands an exception to the loop over the results.
\<close>

lemma research_phase_all_drafting:
  "map ch_current_phase (fst (research_phase K envs chapters col))
     = replicate (length chapters) DRAFTING"
proof -
  obtain results col' where rt: "research_tasks K envs 0 chapters col = (results, col')"
    by (cases "research_tasks K envs 0 chapters col")
  have len: "length results = length chapters"
    using research_tasks_length [of K envs 0 chapters col] by (simp add: rt)
  have "map (\<lambda>x. ch_current_phase (case x of (result, c) \<Rightarrow>
           (case result of Raised \<Rightarrow> c\<lparr>ch_current_phase := FAILED\<rparr>
                         | Returned b \<Rightarrow> c\<lparr>ch_current_phase := DRAFTING\<rparr>))) results
        = map (\<lambda>x. DRAFTING) results"
  proof (rule map_cong [OF refl])
    fix x
    assume "x \<in> set results"
    then have "\<exists>b. fst x = Returned b"
      using research_tasks_returned [of K envs 0 chapters col] by (simp add: rt)
    then show "ch_current_phase (case x of (result, c) \<Rightarrow>
           (case result of Raised \<Rightarrow> c\<lparr>ch_current_phase := FAILED\<rparr>
                         | Returned b \<Rightarrow> c\<lparr>ch_current_phase := DRAFTING\<rparr>)) = DRAFTING"
      by (rule phase_after_result)
  qed
  then show ?thesis
    by (simp add: research_phase_def rt len map_replicate_const comp_def)
qed

text \<open>
  C4, on two concrete chapters. \<open>research_topic\<close> raises for chapter \<open>B\<close>, so its research
  step reports failure by returning \<open>False\<close>. After the research phase the chapter is
  nevertheless in the phase \<open>DRAFTING\<close>, like chapter \<open>A\<close> whose research succeeded, and
  the drafting phase takes up both.
\<close>

theorem failed_research_goes_to_drafting:
  "fst (research_chapter sample_lib (research_envs 1) chapter_B []) = Returned False \<and>
   map ch_current_phase (fst (research_phase sample_lib research_envs [chapter_A, chapter_B] []))
     = [DRAFTING, DRAFTING] \<and>
   map ch_id (drafting_phase_chapters
                (fst (research_phase sample_lib research_envs [chapter_A, chapter_B] [])))
     = [''A'', ''B'']"
  by (simp add: research_phase_def research_chapter_def research_envs_def chapter_A_def
        chapter_B_def ContentVersion_init_def save_version_def save_version_run_def
        get_content_hash_def sample_lib_def collection_add_def Rep_uuid_a
        Rep_uuid_b add_version_def drafting_phase_chapters_def Let_def)

end
